theory Spec2Isabelle
  imports Complex_Main
begin

text \<open>
  The repository holds three versions of the preview script. \<open>static/js/scripts.js\<close>
  is built on Konva and centres the group by its offset; its functions keep their names
  here. A second Konva script fits the group with \<open>fitGroup\<close> and selects it by a click
  on the stage; where a name would clash, its functions carry the suffix \<open>_v2\<close>. The
  third script is built on fabric.js; its functions carry the suffix \<open>_fabric\<close>.
\<close>

section \<open>Numbers\<close>

text \<open>
  The scripts compute with JavaScript numbers. They are modelled as the real numbers
  extended with the three special values of IEEE arithmetic that the code can produce
  through a division by zero: \<open>Infinity\<close>, \<open>-Infinity\<close> and \<open>NaN\<close>. Rounding is not
  modelled (every finite operation is exact) and there is a single zero: the only
  divisors of the scripts are widths and heights, computed as \<open>max - min\<close>, and positive
  constants, none of which is a negative zero.
\<close>

datatype jsnum = Fin real | PInf | NInf | NaN

fun jneg :: "jsnum \<Rightarrow> jsnum" where
  "jneg (Fin a) = Fin (- a)"
| "jneg PInf = NInf"
| "jneg NInf = PInf"
| "jneg NaN = NaN"

fun jadd :: "jsnum \<Rightarrow> jsnum \<Rightarrow> jsnum" where
  "jadd NaN _ = NaN"
| "jadd _ NaN = NaN"
| "jadd (Fin a) (Fin b) = Fin (a + b)"
| "jadd PInf NInf = NaN"
| "jadd NInf PInf = NaN"
| "jadd PInf _ = PInf"
| "jadd _ PInf = PInf"
| "jadd NInf _ = NInf"
| "jadd _ NInf = NInf"

definition jsub :: "jsnum \<Rightarrow> jsnum \<Rightarrow> jsnum" where
  "jsub a b = jadd a (jneg b)"

text \<open>The sign of a product with an infinity; zero times infinity is \<open>NaN\<close>.\<close>

definition signed_inf :: "real \<Rightarrow> jsnum" where
  "signed_inf a = (if 0 < a then PInf else if a < 0 then NInf else NaN)"

fun jmul :: "jsnum \<Rightarrow> jsnum \<Rightarrow> jsnum" where
  "jmul NaN _ = NaN"
| "jmul _ NaN = NaN"
| "jmul (Fin a) (Fin b) = Fin (a * b)"
| "jmul (Fin a) PInf = signed_inf a"
| "jmul (Fin a) NInf = signed_inf (- a)"
| "jmul PInf (Fin b) = signed_inf b"
| "jmul NInf (Fin b) = signed_inf (- b)"
| "jmul PInf PInf = PInf"
| "jmul NInf NInf = PInf"
| "jmul PInf NInf = NInf"
| "jmul NInf PInf = NInf"

text \<open>
  Division: a finite number divided by zero is an infinity of its sign, and \<open>0 / 0\<close> is
  \<open>NaN\<close>. HOL's own \<open>a / 0 = 0\<close> is never used: the divisor is tested first.
\<close>

fun jdiv :: "jsnum \<Rightarrow> jsnum \<Rightarrow> jsnum" where
  "jdiv NaN _ = NaN"
| "jdiv _ NaN = NaN"
| "jdiv (Fin a) (Fin b) = (if b \<noteq> 0 then Fin (a / b) else signed_inf a)"
| "jdiv (Fin a) PInf = Fin 0"
| "jdiv (Fin a) NInf = Fin 0"
| "jdiv PInf (Fin b) = (if 0 \<le> b then PInf else NInf)"
| "jdiv NInf (Fin b) = (if 0 \<le> b then NInf else PInf)"
| "jdiv _ _ = NaN"

text \<open>The comparison \<open>a > b\<close>: false as soon as one side is \<open>NaN\<close>.\<close>

fun jgt :: "jsnum \<Rightarrow> jsnum \<Rightarrow> bool" where
  "jgt NaN _ = False"
| "jgt _ NaN = False"
| "jgt (Fin a) (Fin b) = (b < a)"
| "jgt PInf PInf = False"
| "jgt PInf _ = True"
| "jgt _ PInf = False"
| "jgt NInf _ = False"
| "jgt _ NInf = True"

text \<open>\<open>Math.min\<close> and \<open>Math.max\<close> of two numbers: \<open>NaN\<close> as soon as one is.\<close>

fun jmin :: "jsnum \<Rightarrow> jsnum \<Rightarrow> jsnum" where
  "jmin NaN _ = NaN"
| "jmin _ NaN = NaN"
| "jmin a b = (if jgt a b then b else a)"

fun jmax :: "jsnum \<Rightarrow> jsnum \<Rightarrow> jsnum" where
  "jmax NaN _ = NaN"
| "jmax _ NaN = NaN"
| "jmax a b = (if jgt a b then a else b)"

section \<open>Constants of the scripts\<close>

definition IBB_WIDTH :: real where "IBB_WIDTH = 358"
definition IBB_HEIGHT :: real where "IBB_HEIGHT = 123"
definition PREVIEW_SCALE_FACTOR :: real where "PREVIEW_SCALE_FACTOR = 3"
definition MARGIN :: real where "MARGIN = 10"

section \<open>The scene graph\<close>

text \<open>
  A polyline of the decomposition response is a list of \<open>{x, y}\<close> pairs with finite
  coordinates (JSON numbers). A \<open>Konva.Line\<close> holds them flattened,
  \<open>[x0, y0, x1, y1, ...]\<close>.
\<close>

type_synonym polyline = "(real \<times> real) list"

record dims =
  width :: jsnum
  height :: jsnum

record rect = dims +
  rx :: jsnum
  ry :: jsnum

record group =
  gname :: string
  draggable :: bool
  lines :: "real list list"
  gx :: jsnum
  gy :: jsnum
  scaleX :: jsnum
  scaleY :: jsnum
  offsetX :: jsnum
  offsetY :: jsnum

record transformer =
  rotateEnabled :: bool
  nodes :: "group list"

datatype node = NGroup group | NTransformer transformer

type_synonym layer = "node list"

fun xcoords :: "real list \<Rightarrow> real list" where
  "xcoords (a # b # r) = a # xcoords r"
| "xcoords _ = []"

fun ycoords :: "real list \<Rightarrow> real list" where
  "ycoords (a # b # r) = b # ycoords r"
| "ycoords _ = []"

text \<open>
  Modelled from the spec: Konva's \<open>getClientRect\<close> is library code, not part of the
  repository. Following section 4.1 of the specification, the bounding box is the
  axis-aligned bounds of all points of the group (\<open>skipStroke\<close>, \<open>skipShadow\<close>), here
  taken in the group's own coordinates first (\<open>selfRect\<close>) and then mapped through the
  group's transform, as Konva does: a point \<open>p\<close> is drawn at
  \<open>(p - offset) * scale + position\<close>, and the box of the mapped corners is returned.
  A group without points has the box \<open>{x: 0, y: 0, width: 0, height: 0}\<close>.
\<close>

definition selfRect :: "real list list \<Rightarrow> rect" where
  "selfRect ls =
     (let xs = concat (map xcoords ls); ys = concat (map ycoords ls)
      in if xs = [] \<or> ys = []
         then \<lparr>width = Fin 0, height = Fin 0, rx = Fin 0, ry = Fin 0\<rparr>
         else \<lparr>width = Fin (Max (set xs) - Min (set xs)),
               height = Fin (Max (set ys) - Min (set ys)),
               rx = Fin (Min (set xs)), ry = Fin (Min (set ys))\<rparr>)"

definition transformX :: "group \<Rightarrow> jsnum \<Rightarrow> jsnum" where
  "transformX g p = jadd (jmul (jsub p (offsetX g)) (scaleX g)) (gx g)"

definition transformY :: "group \<Rightarrow> jsnum \<Rightarrow> jsnum" where
  "transformY g p = jadd (jmul (jsub p (offsetY g)) (scaleY g)) (gy g)"

definition getClientRect :: "group \<Rightarrow> rect" where
  "getClientRect g =
     (let r = selfRect (lines g);
          x1 = transformX g (rx r); x2 = transformX g (jadd (rx r) (width r));
          y1 = transformY g (ry r); y2 = transformY g (jadd (ry r) (height r));
          minX = jmin x1 x2; maxX = jmax x1 x2;
          minY = jmin y1 y2; maxY = jmax y1 y2
      in \<lparr>width = jsub maxX minX, height = jsub maxY minY, rx = minX, ry = minY\<rparr>)"

text \<open>
  The group that both Konva variants of \<open>drawPreview\<close> build first: draggable, named
  \<open>polylines\<close>, one line per polyline, at the origin with scale 1 and offset 0 (the
  defaults of a new \<open>Konva.Group\<close>).
\<close>

definition newGroup :: "polyline list \<Rightarrow> group" where
  "newGroup polylines =
     \<lparr>gname = ''polylines'', draggable = True,
      lines = map (\<lambda>polyline. concat (map (\<lambda>pair. [fst pair, snd pair]) polyline)) polylines,
      gx = Fin 0, gy = Fin 0, scaleX = Fin 1, scaleY = Fin 1,
      offsetX = Fin 0, offsetY = Fin 0\<rparr>"

subsection \<open>\<open>fitGroup\<close> and \<open>drawPreview\<close>, variant with \<open>fitGroup\<close>\<close>

definition fitGroup :: "group \<Rightarrow> dims \<Rightarrow> jsnum \<Rightarrow> group" where
  "fitGroup grp bounds margin =
     (let clientRect = getClientRect grp;
          targetSize = \<lparr>width = jsub (width bounds) margin,
                        height = jsub (height bounds) margin\<rparr>;
          grp1 =
            (if jgt (jdiv (width clientRect) (height clientRect))
                    (jdiv (width targetSize) (height targetSize))
             then grp\<lparr>scaleX := jdiv (width targetSize) (width clientRect),
                      scaleY := jdiv (width targetSize) (width clientRect)\<rparr>
             else grp\<lparr>scaleX := jdiv (height targetSize) (height clientRect),
                      scaleY := jdiv (height targetSize) (height clientRect)\<rparr>);
          clientRect2 = getClientRect grp1
      in grp1\<lparr>gx := jadd (gx grp1)
                    (jsub (jdiv (jsub (Fin IBB_WIDTH) (width clientRect2)) (Fin 2)) (rx clientRect2)),
               gy := jadd (gy grp1)
                    (jsub (jdiv (jsub (Fin IBB_HEIGHT) (height clientRect2)) (Fin 2)) (ry clientRect2))\<rparr>)"

definition drawPreview_v2 :: "layer \<Rightarrow> polyline list \<Rightarrow> layer" where
  "drawPreview_v2 layer polylines =
     layer @ [NGroup (fitGroup (newGroup polylines)
                        \<lparr>width = Fin IBB_WIDTH, height = Fin IBB_HEIGHT\<rparr> (Fin MARGIN))]"

subsection \<open>\<open>drawPreview\<close> of \<open>static/js/scripts.js\<close>\<close>

definition drawPreview_group :: "polyline list \<Rightarrow> group" where
  "drawPreview_group polylines =
     (let grp = newGroup polylines;
          clientRect = getClientRect grp;
          grp1 = grp\<lparr>offsetX := jadd (jdiv (width clientRect) (Fin 2)) (rx clientRect),
                     offsetY := jadd (jdiv (height clientRect) (Fin 2)) (ry clientRect)\<rparr>;
          targetSize = \<lparr>width = jsub (Fin IBB_WIDTH) (Fin MARGIN),
                        height = jsub (Fin IBB_HEIGHT) (Fin MARGIN)\<rparr>;
          grp2 =
            (if jgt (jdiv (width clientRect) (height clientRect))
                    (jdiv (width targetSize) (height targetSize))
             then grp1\<lparr>scaleX := jdiv (width targetSize) (width clientRect),
                       scaleY := jdiv (width targetSize) (width clientRect)\<rparr>
             else grp1\<lparr>scaleX := jdiv (height targetSize) (height clientRect),
                       scaleY := jdiv (height targetSize) (height clientRect)\<rparr>)
      in grp2\<lparr>gx := jdiv (Fin IBB_WIDTH) (Fin 2), gy := jdiv (Fin IBB_HEIGHT) (Fin 2)\<rparr>)"

definition drawPreview :: "layer \<Rightarrow> polyline list \<Rightarrow> layer" where
  "drawPreview layer polylines =
     (let grp = drawPreview_group polylines
      in layer @ [NGroup grp, NTransformer \<lparr>rotateEnabled = False, nodes = [grp]\<rparr>])"

section \<open>Requests, responses and notifications\<close>

text \<open>
  The effects of a handler are returned as a list, in the order the handler produces
  them: an \<open>alert\<close> shown to the user, or a request sent with \<open>fetch\<close>. Console output
  is not modelled. A request's answer arrives later, as an event of its own: each
  \<open>async\<close> function is split at its \<open>await\<close> into the part that sends the request and the
  part that handles the response.
\<close>

record print_request =
  svg :: string
  offset_x :: jsnum
  offset_y :: jsnum
  scale_x :: jsnum
  scale_y :: jsnum
  mode :: string

datatype effect = Alert string | PostPreview string | PostPrint print_request

text \<open>
  A response: its HTTP status, the polylines that \<open>r.json()\<close> yields (\<open>None\<close> when the
  body does not parse, so that \<open>r.json()\<close> rejects), and the error body of a failed
  request.
\<close>

datatype error_body = NotJson | JsonNull | JsonObject "string option"

record response =
  status :: nat
  payload :: "polyline list option"
  body :: error_body

definition ok :: "response \<Rightarrow> bool" where
  "ok r = (200 \<le> status r \<and> status r \<le> 299)"

definition digit :: "nat \<Rightarrow> char" where
  "digit n = ''0123456789'' ! n"

function string_of_nat :: "nat \<Rightarrow> string" where
  "string_of_nat n =
     (if n < 10 then [digit n] else string_of_nat (n div 10) @ [digit (n mod 10)])"
  by pat_completeness auto
termination
  by (relation "measure id") auto

text \<open>The page of the Konva scripts: the text of the chosen file and the layer.\<close>

record page =
  svg_text :: string
  layer_of :: layer

subsection \<open>\<open>loadSvg\<close>\<close>

text \<open>
  The \<open>onload\<close> handler of the file reader stores the text and calls \<open>loadSvg\<close>, which
  sends the request when the text is not empty.
\<close>

definition onload :: "page \<Rightarrow> string \<Rightarrow> page \<times> effect list" where
  "onload p text =
     (p\<lparr>svg_text := text\<rparr>, if text \<noteq> [] then [PostPreview text] else [])"

text \<open>
  The rest of \<open>loadSvg\<close>, run when the response arrives. The function has the same text
  in both Konva scripts; \<open>draw\<close> is the \<open>drawPreview\<close> of the script.
\<close>

definition loadSvg_response ::
    "(layer \<Rightarrow> polyline list \<Rightarrow> layer) \<Rightarrow> page \<Rightarrow> response \<Rightarrow> page \<times> effect list" where
  "loadSvg_response draw p r =
     (if ok r then
        (case payload r of
           None \<Rightarrow> (p, [])
         | Some polylines \<Rightarrow> (p\<lparr>layer_of := draw [] polylines\<rparr>, []))
      else if status r = 400 then (p, [Alert ''Error. Did you upload a valid SVG file?''])
      else (p, [Alert (''Error (HTTP '' @ string_of_nat (status r) @ '')'')]))"

datatype event = FileRead string | PreviewResponse response

fun step :: "(layer \<Rightarrow> polyline list \<Rightarrow> layer) \<Rightarrow> page \<Rightarrow> event \<Rightarrow> page" where
  "step draw p (FileRead text) = fst (onload p text)"
| "step draw p (PreviewResponse r) = fst (loadSvg_response draw p r)"

definition run :: "(layer \<Rightarrow> polyline list \<Rightarrow> layer) \<Rightarrow> page \<Rightarrow> event list \<Rightarrow> page" where
  "run draw p evs = foldl (step draw) p evs"

text \<open>The points of the lines on display: those of every group of the layer.\<close>

definition displayed :: "page \<Rightarrow> real list list list" where
  "displayed p = [lines g. NGroup g \<leftarrow> layer_of p]"

text \<open>
  The polylines of the successful response that arrived last in a sequence of events, if
  there is one: the reference that the display is compared with below.
\<close>

fun last_applied :: "event list \<Rightarrow> polyline list option" where
  "last_applied [] = None"
| "last_applied (FileRead text # evs) = last_applied evs"
| "last_applied (PreviewResponse r # evs) =
     (case last_applied evs of
        Some polylines \<Rightarrow> Some polylines
      | None \<Rightarrow> if ok r then payload r else None)"

subsection \<open>\<open>printObject\<close>\<close>

text \<open>
  \<open>printMode\<close> is the value of the checked radio button \<open>mode\<close>, which the handler
  reads first; the page is taken to have one checked. The handler returns the page as it
  found it, with its effects.
\<close>

definition printObject :: "string \<Rightarrow> page \<Rightarrow> page \<times> effect list" where
  "printObject printMode p =
     (let children = [g. NGroup g \<leftarrow> layer_of p, gname g = ''polylines'']
      in if length children = 0
         then (p, [Alert ''No object loaded. Please choose an SVG file first.''])
         else (p, map (\<lambda>obj. PostPrint
                  \<lparr>svg = svg_text p,
                   offset_x = jadd (gx obj) (offsetX obj),
                   offset_y = jadd (gy obj) (offsetY obj),
                   scale_x = scaleX obj, scale_y = scaleY obj,
                   mode = printMode\<rparr>) children))"

definition printObject_v2 :: "string \<Rightarrow> page \<Rightarrow> page \<times> effect list" where
  "printObject_v2 printMode p =
     (let children = [g. NGroup g \<leftarrow> layer_of p, gname g = ''polylines'']
      in if length children = 0
         then (p, [Alert ''No object loaded. Please choose an SVG file first.''])
         else (p, map (\<lambda>obj. PostPrint
                  \<lparr>svg = svg_text p,
                   offset_x = gx obj, offset_y = gy obj,
                   scale_x = scaleX obj, scale_y = scaleY obj,
                   mode = printMode\<rparr>) children))"

text \<open>
  The handling of the answer to a print request, the same text in the three scripts; it
  touches neither the page nor the group.
\<close>

definition printObject_response :: "string \<Rightarrow> 'p \<Rightarrow> nat \<Rightarrow> 'p \<times> effect list" where
  "printObject_response printMode p st =
     (if st = 204 then
        (if printMode = ''once'' then (p, [Alert ''Printing!''])
         else (p, [Alert ''Scheduled printing!'']))
      else if st = 400 then (p, [Alert ''Error. Did you upload a valid SVG file?''])
      else (p, [Alert (''Error (HTTP '' @ string_of_nat st @ '')'')]))"

subsection \<open>The click handler of the stage\<close>

text \<open>
  The target of a click is the stage itself or a shape; \<open>Shape parent\<close> is a shape whose
  \<open>getParent()\<close> is \<open>parent\<close>. The handler sets the nodes of the transformer.
\<close>

datatype 'n target = Stage | Shape 'n

definition click_tap :: "'n target \<Rightarrow> 'n list \<Rightarrow> 'n list" where
  "click_tap e tr_nodes =
     (case e of
        Stage \<Rightarrow> []
      | Shape parent \<Rightarrow> if \<not> parent \<in> set tr_nodes then [parent] else [])"

text \<open>
  Modelled from the spec: dragging is done by Konva, not by the repository. By section
  4.4 it changes the translation of the group only; the stage is magnified by
  \<open>PREVIEW_SCALE_FACTOR\<close>, so a pointer movement of \<open>(dx, dy)\<close> canvas pixels moves the
  group by that vector divided by the factor.
\<close>

definition dragGroup :: "real \<times> real \<Rightarrow> group \<Rightarrow> group" where
  "dragGroup d g =
     g\<lparr>gx := jadd (gx g) (jdiv (Fin (fst d)) (Fin PREVIEW_SCALE_FACTOR)),
       gy := jadd (gy g) (jdiv (Fin (snd d)) (Fin PREVIEW_SCALE_FACTOR))\<rparr>"

definition dragLayer :: "real \<times> real \<Rightarrow> layer \<Rightarrow> layer" where
  "dragLayer d l =
     map (\<lambda>n. case n of NGroup g \<Rightarrow> NGroup (dragGroup d g) | NTransformer t \<Rightarrow> NTransformer t) l"

text \<open>
  The stage of both Konva scripts is built with the scale \<open>PREVIEW_SCALE_FACTOR\<close> on both
  axes, and the layer and the group lie in it untransformed: a point of the group is
  shown at the canvas pixel that is the factor times its place on the stage.
\<close>

definition canvasX :: "group \<Rightarrow> jsnum \<Rightarrow> jsnum" where
  "canvasX g p = jmul (Fin PREVIEW_SCALE_FACTOR) (transformX g p)"

definition canvasY :: "group \<Rightarrow> jsnum \<Rightarrow> jsnum" where
  "canvasY g p = jmul (Fin PREVIEW_SCALE_FACTOR) (transformY g p)"

section \<open>The script built on fabric.js\<close>

text \<open>
  Modelled from the spec: \<open>fabric.Group\<close> is library code, not part of the repository.
  A group has a position \<open>left\<close>, \<open>top\<close>, the size \<open>width\<close>, \<open>height\<close> of the bounding box
  of its objects (the bounds of all their points, the stroke ignored, as in section 4.1),
  two scale factors, and the position \<open>_originalLeft\<close>, \<open>_originalTop\<close> it had when it was
  built. \<open>scaleToHeight v\<close> and \<open>scaleToWidth v\<close> set both scale factors so that the scaled
  height, respectively width, is \<open>v\<close>; \<open>setPositionByOrigin\<close> with the origin
  \<open>center\<close>, \<open>top\<close> puts the middle of the top edge of the scaled group at the point; a
  drag moves the group by the pointer movement, in canvas pixels.
\<close>

record fgroup =
  objects :: "polyline list"
  fleft :: jsnum
  ftop :: jsnum
  fwidth :: jsnum
  fheight :: jsnum
  fscaleX :: jsnum
  fscaleY :: jsnum
  originalLeft :: jsnum
  originalTop :: jsnum

definition newFabricGroup :: "polyline list \<Rightarrow> fgroup" where
  "newFabricGroup objs =
     (let r = selfRect (map (\<lambda>polyline. concat (map (\<lambda>pair. [fst pair, snd pair]) polyline)) objs)
      in \<lparr>objects = objs, fleft = rx r, ftop = ry r, fwidth = width r, fheight = height r,
          fscaleX = Fin 1, fscaleY = Fin 1, originalLeft = rx r, originalTop = ry r\<rparr>)"

definition scaleToHeight :: "fgroup \<Rightarrow> jsnum \<Rightarrow> fgroup" where
  "scaleToHeight g v = g\<lparr>fscaleX := jdiv v (fheight g), fscaleY := jdiv v (fheight g)\<rparr>"

definition scaleToWidth :: "fgroup \<Rightarrow> jsnum \<Rightarrow> fgroup" where
  "scaleToWidth g v = g\<lparr>fscaleX := jdiv v (fwidth g), fscaleY := jdiv v (fwidth g)\<rparr>"

definition setPositionByOrigin_center_top :: "fgroup \<Rightarrow> jsnum \<times> jsnum \<Rightarrow> fgroup" where
  "setPositionByOrigin_center_top g point =
     g\<lparr>fleft := jsub (fst point) (jdiv (jmul (fwidth g) (fscaleX g)) (Fin 2)),
       ftop := snd point\<rparr>"

definition dragObject :: "real \<times> real \<Rightarrow> fgroup \<Rightarrow> fgroup" where
  "dragObject d g = g\<lparr>fleft := jadd (fleft g) (Fin (fst d)), ftop := jadd (ftop g) (Fin (snd d))\<rparr>"

definition dragCanvas :: "real \<times> real \<Rightarrow> fgroup list \<Rightarrow> fgroup list" where
  "dragCanvas d c = map (dragObject d) c"

definition preparePolyline :: "polyline \<Rightarrow> real \<Rightarrow> polyline" where
  "preparePolyline polyline scaleFactor =
     map (\<lambda>pair. (fst pair * scaleFactor, snd pair * scaleFactor)) polyline"

definition drawPreview_fabric :: "fgroup list \<Rightarrow> polyline list \<Rightarrow> fgroup list" where
  "drawPreview_fabric canvas polylines =
     (let grp = map (\<lambda>polyline. preparePolyline polyline PREVIEW_SCALE_FACTOR) polylines;
          groupObj = newFabricGroup grp;
          offset = 5 * PREVIEW_SCALE_FACTOR;
          height = IBB_HEIGHT * PREVIEW_SCALE_FACTOR;
          width = IBB_WIDTH * PREVIEW_SCALE_FACTOR;
          groupObj1 =
            (if jgt (jdiv (fheight groupObj) (fwidth groupObj)) (jdiv (Fin height) (Fin width))
             then scaleToHeight groupObj (Fin (height - offset * 2))
             else scaleToWidth groupObj (Fin (width - offset * 2)));
          centerpoint = (Fin (width / 2), Fin offset)
      in canvas @ [setPositionByOrigin_center_top groupObj1 centerpoint])"

record fpage =
  fsvg_text :: string
  canvas_of :: "fgroup list"

definition printObject_fabric :: "string \<Rightarrow> fpage \<Rightarrow> fpage \<times> effect list" where
  "printObject_fabric printMode p =
     (if length (canvas_of p) = 0
      then (p, [Alert ''No object loaded. Please choose an SVG file first.''])
      else (p, map (\<lambda>obj. PostPrint
               \<lparr>svg = fsvg_text p,
                offset_x = jdiv (jsub (fleft obj) (originalLeft obj)) (Fin PREVIEW_SCALE_FACTOR),
                offset_y = jdiv (jsub (ftop obj) (originalTop obj)) (Fin PREVIEW_SCALE_FACTOR),
                scale_x = fscaleX obj, scale_y = fscaleY obj,
                mode = printMode\<rparr>) (canvas_of p)))"

section \<open>The file list\<close>

text \<open>
  The error branch of \<open>loadSvgList\<close>: the text shown in the error element. A body that
  does not parse, or parses to \<open>null\<close>, makes the \<open>try\<close> block throw and adds nothing; an
  object without the field \<open>details\<close> adds the text of \<open>undefined\<close>.
\<close>

definition loadSvgList_error :: "response \<Rightarrow> string" where
  "loadSvgList_error r =
     ''Error fetching SVG files (HTTP '' @ string_of_nat (status r) @ '')'' @
     (case body r of
        JsonObject (Some details) \<Rightarrow> [CHR 0x0A] @ ''Details: '' @ details
      | JsonObject None \<Rightarrow> [CHR 0x0A] @ ''Details: undefined''
      | _ \<Rightarrow> [])"

section \<open>Bounding boxes and the scale of the fit\<close>

lemma Min_le_Max_list: "zs \<noteq> [] \<Longrightarrow> Min (set zs) \<le> Max (set (zs :: real list))"
proof -
  assume "zs \<noteq> []"
  then have "hd zs \<in> set zs" by simp
  then have "Min (set zs) \<le> hd zs" "hd zs \<le> Max (set zs)" by simp_all
  then show ?thesis by linarith
qed

lemma selfRect_Fin:
  "\<exists>w h x0 y0. selfRect ls = \<lparr>width = Fin w, height = Fin h, rx = Fin x0, ry = Fin y0\<rparr>
      \<and> 0 \<le> w \<and> 0 \<le> h"
proof (cases "concat (map xcoords ls) = [] \<or> concat (map ycoords ls) = []")
  case True
  then have "selfRect ls = \<lparr>width = Fin 0, height = Fin 0, rx = Fin 0, ry = Fin 0\<rparr>"
    unfolding selfRect_def Let_def by (simp only: if_True)
  then show ?thesis by simp
next
  case False
  then have ne: "concat (map xcoords ls) \<noteq> []" "concat (map ycoords ls) \<noteq> []" by blast+
  from False have "selfRect ls =
      \<lparr>width = Fin (Max (set (concat (map xcoords ls))) - Min (set (concat (map xcoords ls)))),
       height = Fin (Max (set (concat (map ycoords ls))) - Min (set (concat (map ycoords ls)))),
       rx = Fin (Min (set (concat (map xcoords ls)))),
       ry = Fin (Min (set (concat (map ycoords ls))))\<rparr>"
    unfolding selfRect_def Let_def by (simp only: if_False)
  moreover have "0 \<le> Max (set (concat (map xcoords ls))) - Min (set (concat (map xcoords ls)))"
    using Min_le_Max_list [OF ne(1)] by linarith
  moreover have "0 \<le> Max (set (concat (map ycoords ls))) - Min (set (concat (map ycoords ls)))"
    using Min_le_Max_list [OF ne(2)] by linarith
  ultimately show ?thesis by blast
qed

lemma jsub_Fin: "jsub (Fin a) (Fin b) = Fin (a - b)"
  by (simp add: jsub_def)

lemma span_real:
  fixes p :: real
  assumes "0 \<le> w" "0 \<le> s"
  shows "\<not> (p + w - c) * s < (p - c) * s"
    and "(p + w - c) * s - (p - c) * s = w * s"
proof -
  have "(p - c) * s \<le> (p + w - c) * s"
    using assms by (simp add: mult_right_mono)
  then show "\<not> (p + w - c) * s < (p - c) * s" by simp
  show "(p + w - c) * s - (p - c) * s = w * s"
    by (simp add: algebra_simps)
qed

lemma getClientRect_Fin:
  assumes "selfRect (lines g) = \<lparr>width = Fin w, height = Fin h, rx = Fin x0, ry = Fin y0\<rparr>"
    and "0 \<le> w" "0 \<le> h"
    and "scaleX g = Fin sx" "scaleY g = Fin sy" "0 \<le> sx" "0 \<le> sy"
    and "offsetX g = Fin ox" "offsetY g = Fin oy" "gx g = Fin tx" "gy g = Fin ty"
  shows "getClientRect g =
           \<lparr>width = Fin (w * sx), height = Fin (h * sy),
            rx = Fin ((x0 - ox) * sx + tx), ry = Fin ((y0 - oy) * sy + ty)\<rparr>"
  unfolding getClientRect_def Let_def transformX_def transformY_def
  using assms(1,4,5,8-11)
  by (simp add: span_real [OF \<open>0 \<le> w\<close> \<open>0 \<le> sx\<close>] span_real [OF \<open>0 \<le> h\<close> \<open>0 \<le> sy\<close>] jsub_Fin)

lemma fit_branch:
  assumes "0 \<le> cw" "0 \<le> ch" "0 < cw \<or> 0 < ch" "0 < tw" "0 < th"
  shows "(if jgt (jdiv (Fin cw) (Fin ch)) (jdiv (Fin tw) (Fin th))
          then jdiv (Fin tw) (Fin cw) else jdiv (Fin th) (Fin ch))
         = Fin (if ch = 0 \<or> tw / th < cw / ch then tw / cw else th / ch)"
proof (cases "ch = 0")
  case True
  with assms have "0 < cw" by simp
  with True assms show ?thesis by (simp add: signed_inf_def)
next
  case False
  with assms have ch: "0 < ch" by simp
  show ?thesis
  proof (cases "tw / th < cw / ch")
    case True
    have "0 < tw / th" using assms by simp
    with True have "0 < cw / ch" by linarith
    with ch have "cw \<noteq> 0" by auto
    with True ch assms show ?thesis by simp
  next
    case False
    with ch assms show ?thesis by simp
  qed
qed

lemma fit_pos:
  fixes cw ch tw th :: real
  assumes "0 \<le> cw" "0 \<le> ch" "0 < cw \<or> 0 < ch" "0 < tw" "0 < th"
  shows "0 < (if ch = 0 \<or> tw / th < cw / ch then tw / cw else th / ch)"
proof (cases "ch = 0")
  case True
  with assms show ?thesis by simp
next
  case False
  with assms have ch: "0 < ch" by simp
  show ?thesis
  proof (cases "tw / th < cw / ch")
    case True
    have "0 < tw / th" using assms by simp
    with True have "0 < cw / ch" by linarith
    with ch have "0 < cw" by (simp add: zero_less_divide_iff)
    with True assms show ?thesis by simp
  next
    case False
    with ch assms show ?thesis by simp
  qed
qed

lemma newGroup_fields:
  "scaleX (newGroup pls) = Fin 1" "scaleY (newGroup pls) = Fin 1"
  "offsetX (newGroup pls) = Fin 0" "offsetY (newGroup pls) = Fin 0"
  "gx (newGroup pls) = Fin 0" "gy (newGroup pls) = Fin 0"
  "gname (newGroup pls) = ''polylines''" "draggable (newGroup pls) = True"
  by (simp_all add: newGroup_def)

lemma getClientRect_newGroup:
  assumes "selfRect (lines (newGroup pls)) =
             \<lparr>width = Fin cw, height = Fin ch, rx = Fin x0, ry = Fin y0\<rparr>"
    and "0 \<le> cw" "0 \<le> ch"
  shows "getClientRect (newGroup pls) =
           \<lparr>width = Fin cw, height = Fin ch, rx = Fin x0, ry = Fin y0\<rparr>"
  using getClientRect_Fin [OF assms, of 1 1 0 0 0 0] by (simp add: newGroup_fields)

lemma clientRect_newGroup_cases:
  obtains cw ch x0 y0 where
    "selfRect (lines (newGroup pls)) = \<lparr>width = Fin cw, height = Fin ch, rx = Fin x0, ry = Fin y0\<rparr>"
    "getClientRect (newGroup pls) = \<lparr>width = Fin cw, height = Fin ch, rx = Fin x0, ry = Fin y0\<rparr>"
    "0 \<le> cw" "0 \<le> ch"
proof -
  from selfRect_Fin [of "lines (newGroup pls)"] obtain w h x0 y0 where
    b: "selfRect (lines (newGroup pls)) = \<lparr>width = Fin w, height = Fin h, rx = Fin x0, ry = Fin y0\<rparr>"
    and nn: "0 \<le> w" "0 \<le> h" by blast
  show ?thesis by (rule that [OF b getClientRect_newGroup [OF b nn] nn])
qed

lemma fitGroup_newGroup:
  assumes box: "selfRect (lines (newGroup pls)) =
             \<lparr>width = Fin cw, height = Fin ch, rx = Fin x0, ry = Fin y0\<rparr>"
    and nn: "0 \<le> cw" "0 \<le> ch" and ne: "0 < cw \<or> 0 < ch"
    and tgt: "m < bw" "m < bh"
    and s: "s = (if ch = 0 \<or> (bw - m) / (bh - m) < cw / ch then (bw - m) / cw else (bh - m) / ch)"
  shows "fitGroup (newGroup pls) \<lparr>width = Fin bw, height = Fin bh\<rparr> (Fin m) =
           (newGroup pls)\<lparr>scaleX := Fin s, scaleY := Fin s,
              gx := Fin ((IBB_WIDTH - cw * s) / 2 - x0 * s),
              gy := Fin ((IBB_HEIGHT - ch * s) / 2 - y0 * s)\<rparr>"
proof -
  have tpos: "0 < bw - m" "0 < bh - m" using tgt by simp_all
  have spos: "0 \<le> s" unfolding s using fit_pos [OF nn ne tpos] by simp
  let ?g1 = "(newGroup pls)\<lparr>scaleX := Fin s, scaleY := Fin s\<rparr>"
  have r1: "getClientRect (newGroup pls) =
              \<lparr>width = Fin cw, height = Fin ch, rx = Fin x0, ry = Fin y0\<rparr>"
    by (rule getClientRect_newGroup [OF box nn])
  have box1: "selfRect (lines ?g1) = \<lparr>width = Fin cw, height = Fin ch, rx = Fin x0, ry = Fin y0\<rparr>"
    using box by simp
  have r2: "getClientRect ?g1 =
              \<lparr>width = Fin (cw * s), height = Fin (ch * s),
               rx = Fin ((x0 - 0) * s + 0), ry = Fin ((y0 - 0) * s + 0)\<rparr>"
    by (rule getClientRect_Fin [OF box1 nn _ _ spos spos]) (simp_all add: newGroup_fields)
  have br: "(if jgt (jdiv (Fin cw) (Fin ch)) (jdiv (Fin (bw - m)) (Fin (bh - m)))
             then jdiv (Fin (bw - m)) (Fin cw) else jdiv (Fin (bh - m)) (Fin ch)) = Fin s"
    unfolding s by (rule fit_branch [OF nn ne tpos])
  have g1: "(if jgt (jdiv (Fin cw) (Fin ch)) (jdiv (Fin (bw - m)) (Fin (bh - m)))
             then (newGroup pls)\<lparr>scaleX := jdiv (Fin (bw - m)) (Fin cw),
                                   scaleY := jdiv (Fin (bw - m)) (Fin cw)\<rparr>
             else (newGroup pls)\<lparr>scaleX := jdiv (Fin (bh - m)) (Fin ch),
                                   scaleY := jdiv (Fin (bh - m)) (Fin ch)\<rparr>) = ?g1"
  proof (cases "jgt (jdiv (Fin cw) (Fin ch)) (jdiv (Fin (bw - m)) (Fin (bh - m)))")
    case True
    with br have "jdiv (Fin (bw - m)) (Fin cw) = Fin s" by (simp only: if_True)
    with True show ?thesis by (simp only: if_True)
  next
    case False
    with br have "jdiv (Fin (bh - m)) (Fin ch) = Fin s" by (simp only: if_False)
    with False show ?thesis by (simp only: if_False)
  qed
  show ?thesis
    unfolding fitGroup_def Let_def r1
    apply (simp only: dims.select_convs rect.select_convs jsub_Fin g1)
    apply (simp add: r2 newGroup_fields jsub_Fin)
    done
qed

lemma drawPreview_group_eq:
  assumes box: "selfRect (lines (newGroup pls)) =
             \<lparr>width = Fin cw, height = Fin ch, rx = Fin x0, ry = Fin y0\<rparr>"
    and nn: "0 \<le> cw" "0 \<le> ch" and ne: "0 < cw \<or> 0 < ch"
    and s: "s = (if ch = 0 \<or> (IBB_WIDTH - MARGIN) / (IBB_HEIGHT - MARGIN) < cw / ch
                 then (IBB_WIDTH - MARGIN) / cw else (IBB_HEIGHT - MARGIN) / ch)"
  shows "drawPreview_group pls =
           (newGroup pls)\<lparr>offsetX := Fin (cw / 2 + x0), offsetY := Fin (ch / 2 + y0),
              scaleX := Fin s, scaleY := Fin s,
              gx := Fin (IBB_WIDTH / 2), gy := Fin (IBB_HEIGHT / 2)\<rparr>"
proof -
  have tpos: "0 < IBB_WIDTH - MARGIN" "0 < IBB_HEIGHT - MARGIN"
    by (simp_all add: IBB_WIDTH_def IBB_HEIGHT_def MARGIN_def)
  let ?g1 = "(newGroup pls)\<lparr>offsetX := Fin (cw / 2 + x0), offsetY := Fin (ch / 2 + y0)\<rparr>"
  have r1: "getClientRect (newGroup pls) =
              \<lparr>width = Fin cw, height = Fin ch, rx = Fin x0, ry = Fin y0\<rparr>"
    by (rule getClientRect_newGroup [OF box nn])
  have off: "jadd (jdiv (Fin cw) (Fin 2)) (Fin x0) = Fin (cw / 2 + x0)"
    "jadd (jdiv (Fin ch) (Fin 2)) (Fin y0) = Fin (ch / 2 + y0)"
    by simp_all
  have br: "(if jgt (jdiv (Fin cw) (Fin ch)) (jdiv (Fin (IBB_WIDTH - MARGIN)) (Fin (IBB_HEIGHT - MARGIN)))
             then jdiv (Fin (IBB_WIDTH - MARGIN)) (Fin cw)
             else jdiv (Fin (IBB_HEIGHT - MARGIN)) (Fin ch)) = Fin s"
    unfolding s by (rule fit_branch [OF nn ne tpos])
  have g2: "(if jgt (jdiv (Fin cw) (Fin ch)) (jdiv (Fin (IBB_WIDTH - MARGIN)) (Fin (IBB_HEIGHT - MARGIN)))
             then ?g1\<lparr>scaleX := jdiv (Fin (IBB_WIDTH - MARGIN)) (Fin cw),
                       scaleY := jdiv (Fin (IBB_WIDTH - MARGIN)) (Fin cw)\<rparr>
             else ?g1\<lparr>scaleX := jdiv (Fin (IBB_HEIGHT - MARGIN)) (Fin ch),
                       scaleY := jdiv (Fin (IBB_HEIGHT - MARGIN)) (Fin ch)\<rparr>)
            = ?g1\<lparr>scaleX := Fin s, scaleY := Fin s\<rparr>"
  proof (cases "jgt (jdiv (Fin cw) (Fin ch)) (jdiv (Fin (IBB_WIDTH - MARGIN)) (Fin (IBB_HEIGHT - MARGIN)))")
    case True
    with br have "jdiv (Fin (IBB_WIDTH - MARGIN)) (Fin cw) = Fin s" by (simp only: if_True)
    with True show ?thesis by (simp only: if_True)
  next
    case False
    with br have "jdiv (Fin (IBB_HEIGHT - MARGIN)) (Fin ch) = Fin s" by (simp only: if_False)
    with False show ?thesis by (simp only: if_False)
  qed
  show ?thesis
    unfolding drawPreview_group_def Let_def r1
    apply (simp only: dims.select_convs rect.select_convs jsub_Fin off g2)
    apply simp
    done
qed

lemma fit_scale_props:
  fixes cw ch tw th :: real
  assumes "0 < cw" "0 < ch" "0 < tw" "0 < th"
    and s: "s = (if tw / th < cw / ch then tw / cw else th / ch)"
  shows "cw * s \<le> tw" "ch * s \<le> th"
    and "\<And>t. cw * t \<le> tw \<Longrightarrow> ch * t \<le> th \<Longrightarrow> t \<le> s"
    and "tw / th < cw / ch \<Longrightarrow> cw * s = tw \<and> ch * s < th"
    and "\<not> tw / th < cw / ch \<Longrightarrow> ch * s = th \<and> (cw * s = tw \<longleftrightarrow> cw / ch = tw / th)"
proof -
  have iff: "tw / th < cw / ch \<longleftrightarrow> tw / cw < th / ch"
    using assms(1-4) by (simp add: field_simps)
  have e1: "cw / ch = tw / th \<longleftrightarrow> cw * th = tw * ch"
    using assms(2,4) by (simp add: frac_eq_eq)
  have e2: "th / ch = tw / cw \<longleftrightarrow> th * cw = tw * ch"
    using assms(1,2) by (simp add: frac_eq_eq)
  have iffe: "cw / ch = tw / th \<longleftrightarrow> th / ch = tw / cw"
    unfolding e1 e2 by (simp add: mult.commute)
  have a: "cw * (tw / cw) = tw" "ch * (th / ch) = th" using assms(1,2) by simp_all
  have w: "cw * (th / ch) \<le> tw \<longleftrightarrow> th / ch \<le> tw / cw"
    using assms(1) by (simp add: pos_le_divide_eq mult.commute)
  have weq: "cw * (th / ch) = tw \<longleftrightarrow> th / ch = tw / cw"
    using assms(1) by (simp add: nonzero_eq_divide_eq mult.commute)
  have h: "ch * (tw / cw) < th \<longleftrightarrow> tw / cw < th / ch"
    using assms(2) by (simp add: pos_less_divide_eq mult.commute)
  show "cw * s \<le> tw"
  proof (cases "tw / th < cw / ch")
    case True then show ?thesis unfolding s using a by simp
  next
    case False
    with iff have "th / ch \<le> tw / cw" by simp
    with False w show ?thesis unfolding s by simp
  qed
  show "ch * s \<le> th"
  proof (cases "tw / th < cw / ch")
    case True
    with iff h have "ch * (tw / cw) < th" by simp
    with True show ?thesis unfolding s by simp
  next
    case False then show ?thesis unfolding s using a by simp
  qed
  show "t \<le> s" if "cw * t \<le> tw" "ch * t \<le> th" for t
  proof -
    from that assms(1,2) have "t \<le> tw / cw" "t \<le> th / ch"
      by (simp_all add: pos_le_divide_eq mult.commute)
    then show ?thesis unfolding s by simp
  qed
  show "cw * s = tw \<and> ch * s < th" if "tw / th < cw / ch"
  proof -
    from that iff h have "ch * (tw / cw) < th" by simp
    with that a show ?thesis unfolding s by simp
  qed
  show "ch * s = th \<and> (cw * s = tw \<longleftrightarrow> cw / ch = tw / th)" if "\<not> tw / th < cw / ch"
  proof -
    from that have "s = th / ch" unfolding s by simp
    then show ?thesis using a weq iffe by simp
  qed
qed

lemma fitted_rect:
  assumes box: "selfRect (lines (newGroup pls)) =
             \<lparr>width = Fin cw, height = Fin ch, rx = Fin x0, ry = Fin y0\<rparr>"
    and nn: "0 \<le> cw" "0 \<le> ch" and ne: "0 < cw \<or> 0 < ch"
    and tgt: "m < bw" "m < bh"
    and s: "s = (if ch = 0 \<or> (bw - m) / (bh - m) < cw / ch then (bw - m) / cw else (bh - m) / ch)"
    and g: "g = fitGroup (newGroup pls) \<lparr>width = Fin bw, height = Fin bh\<rparr> (Fin m) \<or>
            g = drawPreview_group pls \<and> bw = IBB_WIDTH \<and> bh = IBB_HEIGHT \<and> m = MARGIN"
  shows "scaleX g = Fin s \<and> scaleY g = Fin s \<and>
         getClientRect g =
           \<lparr>width = Fin (cw * s), height = Fin (ch * s),
            rx = Fin ((IBB_WIDTH - cw * s) / 2), ry = Fin ((IBB_HEIGHT - ch * s) / 2)\<rparr>"
proof -
  have tpos: "0 < bw - m" "0 < bh - m" using tgt by simp_all
  have spos: "0 \<le> s" unfolding s using fit_pos [OF nn ne tpos] by simp
  from g show ?thesis
  proof
    assume g1: "g = fitGroup (newGroup pls) \<lparr>width = Fin bw, height = Fin bh\<rparr> (Fin m)"
    have eq: "g = (newGroup pls)\<lparr>scaleX := Fin s, scaleY := Fin s,
              gx := Fin ((IBB_WIDTH - cw * s) / 2 - x0 * s),
              gy := Fin ((IBB_HEIGHT - ch * s) / 2 - y0 * s)\<rparr>"
      unfolding g1 by (rule fitGroup_newGroup [OF box nn ne tgt s])
    have boxg: "selfRect (lines g) = \<lparr>width = Fin cw, height = Fin ch, rx = Fin x0, ry = Fin y0\<rparr>"
      using box unfolding eq by simp
    have "getClientRect g =
           \<lparr>width = Fin (cw * s), height = Fin (ch * s),
            rx = Fin ((x0 - 0) * s + ((IBB_WIDTH - cw * s) / 2 - x0 * s)),
            ry = Fin ((y0 - 0) * s + ((IBB_HEIGHT - ch * s) / 2 - y0 * s))\<rparr>"
      by (rule getClientRect_Fin [OF boxg nn _ _ spos spos]) (simp_all add: eq newGroup_fields)
    then show ?thesis by (simp add: eq)
  next
    assume g2: "g = drawPreview_group pls \<and> bw = IBB_WIDTH \<and> bh = IBB_HEIGHT \<and> m = MARGIN"
    then have s': "s = (if ch = 0 \<or> (IBB_WIDTH - MARGIN) / (IBB_HEIGHT - MARGIN) < cw / ch
                 then (IBB_WIDTH - MARGIN) / cw else (IBB_HEIGHT - MARGIN) / ch)"
      using s by simp
    have eq: "g = (newGroup pls)\<lparr>offsetX := Fin (cw / 2 + x0), offsetY := Fin (ch / 2 + y0),
              scaleX := Fin s, scaleY := Fin s,
              gx := Fin (IBB_WIDTH / 2), gy := Fin (IBB_HEIGHT / 2)\<rparr>"
      using g2 drawPreview_group_eq [OF box nn ne s'] by simp
    have boxg: "selfRect (lines g) = \<lparr>width = Fin cw, height = Fin ch, rx = Fin x0, ry = Fin y0\<rparr>"
      using box unfolding eq by simp
    have r: "getClientRect g =
           \<lparr>width = Fin (cw * s), height = Fin (ch * s),
            rx = Fin ((x0 - (cw / 2 + x0)) * s + IBB_WIDTH / 2),
            ry = Fin ((y0 - (ch / 2 + y0)) * s + IBB_HEIGHT / 2)\<rparr>"
      by (rule getClientRect_Fin [OF boxg nn _ _ spos spos]) (simp_all add: eq newGroup_fields)
    have "(x0 - (cw / 2 + x0)) * s + IBB_WIDTH / 2 = (IBB_WIDTH - cw * s) / 2"
      "(y0 - (ch / 2 + y0)) * s + IBB_HEIGHT / 2 = (IBB_HEIGHT - ch * s) / 2"
      by (simp_all add: field_simps)
    with r show ?thesis by (simp add: eq)
  qed
qed

section \<open>What the handlers leave on the layer\<close>

lemma lines_fitGroup: "lines (fitGroup g b m) = lines g"
  by (simp add: fitGroup_def Let_def)

lemma lines_drawPreview_group: "lines (drawPreview_group pls) = lines (newGroup pls)"
  by (simp add: drawPreview_group_def Let_def)

lemma drawPreview_group_named:
  "gname (drawPreview_group pls) = ''polylines''" "draggable (drawPreview_group pls)"
  by (simp_all add: drawPreview_group_def Let_def newGroup_def)

lemma fitGroup_named:
  "gname (fitGroup g b m) = gname g" "draggable (fitGroup g b m) = draggable g"
  by (simp_all add: fitGroup_def Let_def)

lemma empty_scale:
  "scaleX (drawPreview_group []) = PInf" "scaleY (drawPreview_group []) = PInf"
  "scaleX (fitGroup (newGroup []) \<lparr>width = Fin IBB_WIDTH, height = Fin IBB_HEIGHT\<rparr> (Fin MARGIN)) = PInf"
  "scaleY (fitGroup (newGroup []) \<lparr>width = Fin IBB_WIDTH, height = Fin IBB_HEIGHT\<rparr> (Fin MARGIN)) = PInf"
  by (simp_all add: drawPreview_group_def fitGroup_def getClientRect_def selfRect_def
      newGroup_def Let_def transformX_def transformY_def jsub_def signed_inf_def
      IBB_WIDTH_def IBB_HEIGHT_def MARGIN_def)

lemma displayed_drawPreview:
  "layer_of p = drawPreview [] pls \<Longrightarrow> displayed p = [lines (newGroup pls)]"
  "layer_of p = drawPreview_v2 [] pls \<Longrightarrow> displayed p = [lines (newGroup pls)]"
  by (simp_all add: displayed_def drawPreview_def drawPreview_v2_def Let_def
      lines_fitGroup lines_drawPreview_group)

lemma displayed_step:
  assumes "draw = drawPreview \<or> draw = drawPreview_v2"
  shows "displayed (step draw p e) =
     (case last_applied [e] of None \<Rightarrow> displayed p | Some pls \<Rightarrow> [lines (newGroup pls)])"
proof (cases e)
  case (FileRead t)
  then show ?thesis by (simp add: onload_def displayed_def)
next
  case (PreviewResponse r)
  with assms show ?thesis
    by (auto simp add: loadSvg_response_def displayed_drawPreview split: option.splits)
qed

section \<open>The group of the fabric script, and drags\<close>

lemma coords_flat:
  "xcoords (concat (map (\<lambda>pair. [fst pair, snd pair]) pl)) = map fst pl"
  "ycoords (concat (map (\<lambda>pair. [fst pair, snd pair]) pl)) = map snd pl"
  by (induction pl) simp_all

lemma coords_all:
  "concat (map xcoords (map (\<lambda>pl. concat (map (\<lambda>pair. [fst pair, snd pair]) pl)) pls))
     = map fst (concat pls)"
  "concat (map ycoords (map (\<lambda>pl. concat (map (\<lambda>pair. [fst pair, snd pair]) pl)) pls))
     = map snd (concat pls)"
  by (induction pls) (simp_all add: coords_flat)

lemma prepared_coords:
  "map fst (concat (map (\<lambda>pl. preparePolyline pl k) pls)) = map (\<lambda>v. v * k) (map fst (concat pls))"
  "map snd (concat (map (\<lambda>pl. preparePolyline pl k) pls)) = map (\<lambda>v. v * k) (map snd (concat pls))"
  by (induction pls) (simp_all add: preparePolyline_def)

lemma Min_Max_scale:
  fixes k :: real
  assumes "zs \<noteq> []" "0 < k"
  shows "Min (set (map (\<lambda>v. v * k) zs)) = Min (set zs) * k"
    and "Max (set (map (\<lambda>v. v * k) zs)) = Max (set zs) * k"
proof -
  have m: "mono (\<lambda>v. v * k)"
    using assms(2) by (simp add: mono_def mult_right_mono)
  have fin: "finite (set zs)" "set zs \<noteq> {}" using assms(1) by simp_all
  show "Min (set (map (\<lambda>v. v * k) zs)) = Min (set zs) * k"
    using mono_Min_commute [OF m fin] by simp
  show "Max (set (map (\<lambda>v. v * k) zs)) = Max (set zs) * k"
    using mono_Max_commute [OF m fin] by simp
qed

lemma selfRect_points:
  "selfRect (map (\<lambda>pl. concat (map (\<lambda>pair. [fst pair, snd pair]) pl)) pls) =
     (if concat pls = []
      then \<lparr>width = Fin 0, height = Fin 0, rx = Fin 0, ry = Fin 0\<rparr>
      else \<lparr>width = Fin (Max (set (map fst (concat pls))) - Min (set (map fst (concat pls)))),
            height = Fin (Max (set (map snd (concat pls))) - Min (set (map snd (concat pls)))),
            rx = Fin (Min (set (map fst (concat pls)))),
            ry = Fin (Min (set (map snd (concat pls))))\<rparr>)"
  unfolding selfRect_def Let_def coords_all by simp

lemma selfRect_prepared:
  assumes box: "selfRect (lines (newGroup pls)) =
             \<lparr>width = Fin cw, height = Fin ch, rx = Fin x0, ry = Fin y0\<rparr>"
    and k: "0 < k"
  shows "selfRect (map (\<lambda>pl. concat (map (\<lambda>pair. [fst pair, snd pair]) pl))
                    (map (\<lambda>pl. preparePolyline pl k) pls)) =
           \<lparr>width = Fin (cw * k), height = Fin (ch * k), rx = Fin (x0 * k), ry = Fin (y0 * k)\<rparr>"
proof -
  define xs where "xs = map fst (concat pls)"
  define ys where "ys = map snd (concat pls)"
  have len: "(concat pls = []) = (xs = [])" "(concat pls = []) = (ys = [])"
    "(concat (map (\<lambda>pl. preparePolyline pl k) pls) = []) = (xs = [])"
    by (auto simp add: xs_def ys_def preparePolyline_def)
  have xy: "(xs = []) = (ys = [])" by (simp add: xs_def ys_def)
  have b: "selfRect (map (\<lambda>pl. concat (map (\<lambda>pair. [fst pair, snd pair]) pl)) pls) =
             \<lparr>width = Fin cw, height = Fin ch, rx = Fin x0, ry = Fin y0\<rparr>"
    using box by (simp add: newGroup_def)
  show ?thesis
  proof (cases "xs = []")
    case True
    with b have "cw = 0 \<and> ch = 0 \<and> x0 = 0 \<and> y0 = 0"
      unfolding selfRect_points len(1) by simp
    with True show ?thesis
      unfolding selfRect_points len(3) by simp
  next
    case False
    then have ny: "ys \<noteq> []" using xy by simp
    from False b have
      "\<lparr>width = Fin (Max (set xs) - Min (set xs)), height = Fin (Max (set ys) - Min (set ys)),
        rx = Fin (Min (set xs)), ry = Fin (Min (set ys))\<rparr> =
       \<lparr>width = Fin cw, height = Fin ch, rx = Fin x0, ry = Fin y0\<rparr>"
      unfolding selfRect_points len(1) xs_def [symmetric] ys_def [symmetric]
      by (simp only: if_False)
    then have v: "cw = Max (set xs) - Min (set xs)" "ch = Max (set ys) - Min (set ys)"
      "x0 = Min (set xs)" "y0 = Min (set ys)"
      by simp_all
    show ?thesis
      unfolding selfRect_points len(3) prepared_coords xs_def [symmetric] ys_def [symmetric]
      using False
      by (simp only: if_False Min_Max_scale [OF False k] Min_Max_scale [OF ny k] v
          left_diff_distrib)
  qed
qed

lemma branch_Fin:
  assumes "0 \<le> p" "0 \<le> q" "0 < p \<or> 0 < q" "0 < r"
  shows "(if jgt (jdiv (Fin p) (Fin q)) (Fin r) then jdiv (Fin a) (Fin p) else jdiv (Fin b) (Fin q))
         = Fin (if q = 0 \<or> r < p / q then a / p else b / q)"
proof (cases "q = 0")
  case True
  with assms have "0 < p" by simp
  with True assms show ?thesis by (simp add: signed_inf_def)
next
  case False
  with assms have q: "0 < q" by simp
  show ?thesis
  proof (cases "r < p / q")
    case True
    with assms(4) have "0 < p / q" by linarith
    with q have "p \<noteq> 0" by auto
    with True q show ?thesis by simp
  next
    case False
    with q show ?thesis by simp
  qed
qed

lemma drawPreview_fabric_eq:
  assumes box: "selfRect (lines (newGroup pls)) =
             \<lparr>width = Fin cw, height = Fin ch, rx = Fin x0, ry = Fin y0\<rparr>"
    and nn: "0 \<le> cw" "0 \<le> ch" and ne: "0 < cw \<or> 0 < ch"
    and s: "s = (if cw = 0 \<or> IBB_HEIGHT / IBB_WIDTH < ch / cw
                 then (IBB_HEIGHT - 10) / ch else (IBB_WIDTH - 10) / cw)"
  shows "drawPreview_fabric canvas pls = canvas @
           [\<lparr>objects = map (\<lambda>pl. preparePolyline pl PREVIEW_SCALE_FACTOR) pls,
             fleft = Fin ((IBB_WIDTH - cw * s) / 2 * 3), ftop = Fin 15,
             fwidth = Fin (cw * 3), fheight = Fin (ch * 3),
             fscaleX = Fin s, fscaleY = Fin s,
             originalLeft = Fin (x0 * 3), originalTop = Fin (y0 * 3)\<rparr>]"
proof -
  have k: "0 < PREVIEW_SCALE_FACTOR" by (simp add: PREVIEW_SCALE_FACTOR_def)
  note r = selfRect_prepared [OF box k]
  have g0: "newFabricGroup (map (\<lambda>pl. preparePolyline pl PREVIEW_SCALE_FACTOR) pls) =
      \<lparr>objects = map (\<lambda>pl. preparePolyline pl PREVIEW_SCALE_FACTOR) pls,
       fleft = Fin (x0 * 3), ftop = Fin (y0 * 3), fwidth = Fin (cw * 3), fheight = Fin (ch * 3),
       fscaleX = Fin 1, fscaleY = Fin 1,
       originalLeft = Fin (x0 * 3), originalTop = Fin (y0 * 3)\<rparr>"
    unfolding newFabricGroup_def Let_def r by (simp add: PREVIEW_SCALE_FACTOR_def)
  have ratio: "jdiv (Fin (IBB_HEIGHT * PREVIEW_SCALE_FACTOR)) (Fin (IBB_WIDTH * PREVIEW_SCALE_FACTOR))
      = Fin (IBB_HEIGHT / IBB_WIDTH)"
    by (simp add: PREVIEW_SCALE_FACTOR_def IBB_WIDTH_def IBB_HEIGHT_def)
  have s3: "s = (if cw * 3 = 0 \<or> IBB_HEIGHT / IBB_WIDTH < (ch * 3) / (cw * 3)
             then (IBB_HEIGHT * 3 - 5 * 3 * 2) / (ch * 3)
             else (IBB_WIDTH * 3 - 5 * 3 * 2) / (cw * 3))"
  proof -
    have e: "IBB_HEIGHT * 3 - 5 * 3 * 2 = (IBB_HEIGHT - 10) * 3"
      "IBB_WIDTH * 3 - 5 * 3 * 2 = (IBB_WIDTH - 10) * 3"
      by simp_all
    have c: "(3::real) \<noteq> 0" by simp
    have "(IBB_HEIGHT * 3 - 5 * 3 * 2) / (ch * 3) = (IBB_HEIGHT - 10) / ch"
      "(IBB_WIDTH * 3 - 5 * 3 * 2) / (cw * 3) = (IBB_WIDTH - 10) / cw"
      unfolding e by (rule mult_divide_mult_cancel_right [OF c])+
    moreover have "(ch * 3) / (cw * 3) = ch / cw"
      by (rule mult_divide_mult_cancel_right [OF c])
    ultimately show ?thesis unfolding s by (simp only:) simp
  qed
  have br: "(if jgt (jdiv (Fin (ch * 3)) (Fin (cw * 3))) (Fin (IBB_HEIGHT / IBB_WIDTH))
             then jdiv (Fin (IBB_HEIGHT * 3 - 5 * 3 * 2)) (Fin (ch * 3))
             else jdiv (Fin (IBB_WIDTH * 3 - 5 * 3 * 2)) (Fin (cw * 3))) = Fin s"
    unfolding s3
    by (rule branch_Fin) (use nn ne in \<open>auto simp add: IBB_WIDTH_def IBB_HEIGHT_def\<close>)
  show ?thesis
    unfolding drawPreview_fabric_def Let_def g0 ratio
    apply (simp only: fgroup.select_convs)
    apply (cases "jgt (jdiv (Fin (ch * 3)) (Fin (cw * 3))) (Fin (IBB_HEIGHT / IBB_WIDTH))")
    using br
     apply (simp_all add: scaleToHeight_def scaleToWidth_def setPositionByOrigin_center_top_def
        PREVIEW_SCALE_FACTOR_def jsub_Fin)
    done
qed

lemma fold_dragLayer:
  assumes "gx g = Fin a" "gy g = Fin b"
  shows "fold dragLayer ds [NGroup g] =
           [NGroup (g\<lparr>gx := Fin (a + sum_list (map fst ds) / 3),
                      gy := Fin (b + sum_list (map snd ds) / 3)\<rparr>)]"
  using assms
proof (induction ds arbitrary: g a b)
  case Nil
  then show ?case by simp
next
  case (Cons d ds)
  have "gx (dragGroup d g) = Fin (a + fst d / 3)" "gy (dragGroup d g) = Fin (b + snd d / 3)"
    using Cons.prems by (simp_all add: dragGroup_def PREVIEW_SCALE_FACTOR_def)
  from Cons.IH [OF this] show ?case
    by (simp add: dragLayer_def dragGroup_def add_divide_distrib add.assoc)
qed

lemma fold_dragCanvas:
  assumes "fleft f = Fin a" "ftop f = Fin b"
  shows "fold dragCanvas ds [f] =
           [f\<lparr>fleft := Fin (a + sum_list (map fst ds)),
              ftop := Fin (b + sum_list (map snd ds))\<rparr>]"
  using assms
proof (induction ds arbitrary: f a b)
  case Nil
  then show ?case by simp
next
  case (Cons d ds)
  have "fleft (dragObject d f) = Fin (a + fst d)" "ftop (dragObject d f) = Fin (b + snd d)"
    using Cons.prems by (simp_all add: dragObject_def)
  from Cons.IH [OF this] show ?case
    by (simp add: dragCanvas_def dragObject_def add.assoc)
qed

lemma fitGroup_uniform: "scaleX (fitGroup g b m) = scaleY (fitGroup g b m)"
  by (simp add: fitGroup_def Let_def)

lemma drawPreview_fabric_uniform:
  "fscaleX (last (drawPreview_fabric c pls)) = fscaleY (last (drawPreview_fabric c pls))"
  by (simp add: drawPreview_fabric_def Let_def scaleToHeight_def scaleToWidth_def
      setPositionByOrigin_center_top_def)

section \<open>C1: the scale of the fit\<close>

text \<open>
  C1 (as amended). For every content bounding box with positive width \<open>cw\<close> and height
  \<open>ch\<close>, and bounds \<open>bw\<close>, \<open>bh\<close> that exceed the margin \<open>m\<close> (so that the target size, the
  bounds less the margin, is positive), the fit of both Konva scripts takes the width
  branch exactly when \<open>cw / ch\<close> is greater than the ratio of the target size, and the
  height branch otherwise. The scale \<open>s\<close> it applies, to both axes, is the largest with
  \<open>cw * s \<le> bw - m\<close> and \<open>ch * s \<le> bh - m\<close>. The scaled content meets the target exactly
  on the axis of the branch taken; on the other axis it stays strictly inside when the
  width branch is taken, and reaches the target in the height branch only when the two
  ratios are equal. \<open>fitGroup\<close> takes any bounds and margin; \<open>drawPreview\<close> of
  \<open>scripts.js\<close> has the constants built in.
\<close>

theorem fit_largest_uniform_scale:
  assumes box: "selfRect (lines (newGroup pls)) =
             \<lparr>width = Fin cw, height = Fin ch, rx = Fin x0, ry = Fin y0\<rparr>"
    and pos: "0 < cw" "0 < ch" and tgt: "m < bw" "m < bh"
    and s: "s = (if (bw - m) / (bh - m) < cw / ch then (bw - m) / cw else (bh - m) / ch)"
    and g: "g = fitGroup (newGroup pls) \<lparr>width = Fin bw, height = Fin bh\<rparr> (Fin m) \<or>
            g = drawPreview_group pls \<and> bw = IBB_WIDTH \<and> bh = IBB_HEIGHT \<and> m = MARGIN"
  shows "scaleX g = Fin s \<and> scaleY g = Fin s \<and>
         width (getClientRect g) = Fin (cw * s) \<and> height (getClientRect g) = Fin (ch * s) \<and>
         cw * s \<le> bw - m \<and> ch * s \<le> bh - m \<and>
         (\<forall>t. cw * t \<le> bw - m \<and> ch * t \<le> bh - m \<longrightarrow> t \<le> s) \<and>
         ((bw - m) / (bh - m) < cw / ch \<longrightarrow> cw * s = bw - m \<and> ch * s < bh - m) \<and>
         (\<not> (bw - m) / (bh - m) < cw / ch \<longrightarrow>
            ch * s = bh - m \<and> (cw * s = bw - m \<longleftrightarrow> cw / ch = (bw - m) / (bh - m)))"
proof -
  have nn: "0 \<le> cw" "0 \<le> ch" and ne: "0 < cw \<or> 0 < ch" using pos by simp_all
  have tpos: "0 < bw - m" "0 < bh - m" using tgt by simp_all
  have s': "s = (if ch = 0 \<or> (bw - m) / (bh - m) < cw / ch then (bw - m) / cw else (bh - m) / ch)"
    using s pos by simp
  note r = fitted_rect [OF box nn ne tgt s' g]
  note p = fit_scale_props [OF pos tpos s]
  from r have "scaleX g = Fin s" "scaleY g = Fin s"
    "width (getClientRect g) = Fin (cw * s)" "height (getClientRect g) = Fin (ch * s)"
    by simp_all
  moreover have "\<forall>t. cw * t \<le> bw - m \<and> ch * t \<le> bh - m \<longrightarrow> t \<le> s"
    using p(3) by blast
  ultimately show ?thesis using p(1,2,4,5) by blast
qed

text \<open>
  The example of the specification: one polyline through \<open>(0,0)\<close>, \<open>(10,0)\<close>, \<open>(10,10)\<close>
  on the 358 by 123 surface with margin 10. The height branch is taken, the scale is
  \<open>11.3\<close>, and the scaled content is 113 by 113.
\<close>

theorem fit_largest_uniform_scale_witness:
  "scaleX (fitGroup (newGroup [[(0, 0), (10, 0), (10, 10)]])
             \<lparr>width = Fin 358, height = Fin 123\<rparr> (Fin 10)) = Fin (113 / 10) \<and>
   height (getClientRect (fitGroup (newGroup [[(0, 0), (10, 0), (10, 10)]])
             \<lparr>width = Fin 358, height = Fin 123\<rparr> (Fin 10))) = Fin 113 \<and>
   width (getClientRect (fitGroup (newGroup [[(0, 0), (10, 0), (10, 10)]])
             \<lparr>width = Fin 358, height = Fin 123\<rparr> (Fin 10))) = Fin 113"
proof -
  have box: "selfRect (lines (newGroup [[(0, 0), (10, 0), (10, 10)]])) =
      \<lparr>width = Fin 10, height = Fin 10, rx = Fin 0, ry = Fin 0\<rparr>"
    by (simp add: selfRect_def newGroup_def Let_def)
  have "(0::real) < 10" "(10::real) < 358" "(10::real) < 123" by simp_all
  from fit_largest_uniform_scale [OF box this(1) this(1) this(2) this(3) refl, OF disjI1, OF refl]
  show ?thesis by simp
qed

text \<open>
  C1 as stated asks for equality on exactly the binding axis. A content box of 348 by
  113 has the ratio of the target: the width is not the binding axis, and yet the scaled
  content meets the target on both axes.
\<close>

theorem fit_equality_on_both_axes_counterexample:
  "\<not> ((width (getClientRect (fitGroup (newGroup [[(0, 0), (348, 113)]])
             \<lparr>width = Fin 358, height = Fin 123\<rparr> (Fin 10))) = Fin (358 - 10))
       = ((358 - 10) / (123 - 10) < (348::real) / 113)) \<and>
   width (getClientRect (fitGroup (newGroup [[(0, 0), (348, 113)]])
             \<lparr>width = Fin 358, height = Fin 123\<rparr> (Fin 10))) = Fin (358 - 10) \<and>
   height (getClientRect (fitGroup (newGroup [[(0, 0), (348, 113)]])
             \<lparr>width = Fin 358, height = Fin 123\<rparr> (Fin 10))) = Fin (123 - 10) \<and>
   \<not> ((358 - 10) / (123 - 10) < (348::real) / 113)"
  by (simp add: fitGroup_def getClientRect_def selfRect_def newGroup_def Let_def
      transformX_def transformY_def jsub_def IBB_WIDTH_def IBB_HEIGHT_def)

section \<open>C2: responses that arrive out of order\<close>

text \<open>
  C2 (as amended). \<open>loadSvg\<close> keeps no session token and compares nothing when a
  response arrives: in both Konva scripts, after any sequence of file loads and
  responses, the lines on display are those of the successful response that arrived
  last, whatever file was chosen last; when none has arrived the display is as it was.
\<close>

theorem last_response_wins:
  assumes "draw = drawPreview \<or> draw = drawPreview_v2"
  shows "displayed (run draw p evs) =
     (case last_applied evs of None \<Rightarrow> displayed p | Some pls \<Rightarrow> [lines (newGroup pls)])"
  unfolding run_def
proof (induction evs arbitrary: p)
  case Nil
  show ?case by simp
next
  case (Cons e evs)
  have "displayed (foldl (step draw) p (e # evs)) =
          (case last_applied evs of None \<Rightarrow> displayed (step draw p e)
           | Some pls \<Rightarrow> [lines (newGroup pls)])"
    using Cons.IH [of "step draw p e"] by simp
  also have "\<dots> = (case last_applied (e # evs) of None \<Rightarrow> displayed p
           | Some pls \<Rightarrow> [lines (newGroup pls)])"
    using displayed_step [OF assms, of p e]
    by (cases e) (auto split: option.splits)
  finally show ?case .
qed

text \<open>
  Two files are chosen, the answer for the second arrives, then a failure: the second
  file's line stays on display.
\<close>

theorem last_response_wins_witness:
  "displayed (run drawPreview_v2 \<lparr>svg_text = [], layer_of = []\<rparr>
     [FileRead ''X'', FileRead ''Y'',
      PreviewResponse \<lparr>status = 200, payload = Some [[(0, 0), (0, 20)]], body = NotJson\<rparr>,
      PreviewResponse \<lparr>status = 500, payload = None, body = NotJson\<rparr>])
   = [[[0, 0, 0, 20]]]"
  using last_response_wins [OF disjI2, OF refl, of "\<lparr>svg_text = [], layer_of = []\<rparr>"
     "[FileRead ''X'', FileRead ''Y'',
      PreviewResponse \<lparr>status = 200, payload = Some [[(0, 0), (0, 20)]], body = NotJson\<rparr>,
      PreviewResponse \<lparr>status = 500, payload = None, body = NotJson\<rparr>]"]
  by (simp add: ok_def newGroup_def)

text \<open>
  C2 as stated: file X is requested, then file Y; the answer for Y arrives first and the
  answer for X after it. The display ends with the polyline of X, not with that of Y.
\<close>

theorem stale_response_counterexample:
  "displayed (run drawPreview \<lparr>svg_text = [], layer_of = []\<rparr>
     [FileRead ''X'', FileRead ''Y'',
      PreviewResponse \<lparr>status = 200, payload = Some [[(0, 0), (0, 20)]], body = NotJson\<rparr>,
      PreviewResponse \<lparr>status = 200, payload = Some [[(0, 0), (10, 0), (10, 10)]], body = NotJson\<rparr>])
   = [[[0, 0, 10, 0, 10, 10]]] \<and>
   displayed (run drawPreview_v2 \<lparr>svg_text = [], layer_of = []\<rparr>
     [FileRead ''X'', FileRead ''Y'',
      PreviewResponse \<lparr>status = 200, payload = Some [[(0, 0), (0, 20)]], body = NotJson\<rparr>,
      PreviewResponse \<lparr>status = 200, payload = Some [[(0, 0), (10, 0), (10, 10)]], body = NotJson\<rparr>])
   = [[[0, 0, 10, 0, 10, 10]]] \<and>
   [[[0, 0, 10, 0, 10, 10]]] \<noteq> [[[0, 0, 0, 20 :: real]]]"
  by (simp add: run_def onload_def loadSvg_response_def ok_def displayed_drawPreview newGroup_def)

section \<open>C3: reading the placement\<close>

text \<open>
  The Konva script with \<open>fitGroup\<close> leaves the offset of the group at zero. For the
  rendered group of every polyline set whose bounding box is not 0 by 0, after any drags,
  its request carries the canvas pixel of the group's origin divided by
  \<open>PREVIEW_SCALE_FACTOR\<close>, and the scale factors of the group unchanged; applied again to
  any coordinate \<open>p\<close>, scale and offset give the place where the preview shows \<open>p\<close>.
\<close>

lemma fitGroup_script_submits_device_position:
  assumes ne: "width (getClientRect (newGroup pls)) \<noteq> Fin 0 \<or>
               height (getClientRect (newGroup pls)) \<noteq> Fin 0"
  shows "\<exists>g. fold dragLayer ds (drawPreview_v2 [] pls) = [NGroup g] \<and>
           snd (printObject_v2 printMode \<lparr>svg_text = t, layer_of = [NGroup g]\<rparr>) =
             [PostPrint \<lparr>svg = t,
                offset_x = jdiv (canvasX g (Fin 0)) (Fin PREVIEW_SCALE_FACTOR),
                offset_y = jdiv (canvasY g (Fin 0)) (Fin PREVIEW_SCALE_FACTOR),
                scale_x = scaleX g, scale_y = scaleY g, mode = printMode\<rparr>] \<and>
           (\<forall>p. jadd (jmul (Fin p) (scaleX g)) (gx g) =
                  jdiv (canvasX g (Fin p)) (Fin PREVIEW_SCALE_FACTOR)) \<and>
           (\<forall>p. jadd (jmul (Fin p) (scaleY g)) (gy g) =
                  jdiv (canvasY g (Fin p)) (Fin PREVIEW_SCALE_FACTOR))"
proof -
  obtain cw ch x0 y0 where
    box: "selfRect (lines (newGroup pls)) = \<lparr>width = Fin cw, height = Fin ch, rx = Fin x0, ry = Fin y0\<rparr>"
    and cr: "getClientRect (newGroup pls) = \<lparr>width = Fin cw, height = Fin ch, rx = Fin x0, ry = Fin y0\<rparr>"
    and nn: "0 \<le> cw" "0 \<le> ch"
    by (rule clientRect_newGroup_cases)
  from ne cr nn have pos: "0 < cw \<or> 0 < ch" by auto
  define s where "s = (if ch = 0 \<or> (IBB_WIDTH - MARGIN) / (IBB_HEIGHT - MARGIN) < cw / ch
                       then (IBB_WIDTH - MARGIN) / cw else (IBB_HEIGHT - MARGIN) / ch)"
  have tgt: "MARGIN < IBB_WIDTH" "MARGIN < IBB_HEIGHT"
    by (simp_all add: MARGIN_def IBB_WIDTH_def IBB_HEIGHT_def)
  note k = fitGroup_newGroup [OF box nn pos tgt s_def]
  define a where "a = (IBB_WIDTH - cw * s) / 2 - x0 * s + sum_list (map fst ds) / 3"
  define b where "b = (IBB_HEIGHT - ch * s) / 2 - y0 * s + sum_list (map snd ds) / 3"
  define g where "g = (newGroup pls)\<lparr>scaleX := Fin s, scaleY := Fin s, gx := Fin a, gy := Fin b\<rparr>"
  have kd: "fold dragLayer ds (drawPreview_v2 [] pls) = [NGroup g]"
    unfolding drawPreview_v2_def k g_def a_def b_def
    by (simp add: fold_dragLayer [where a = "(IBB_WIDTH - cw * s) / 2 - x0 * s"
          and b = "(IBB_HEIGHT - ch * s) / 2 - y0 * s"])
  have f: "gname g = ''polylines''" "offsetX g = Fin 0" "offsetY g = Fin 0"
    "scaleX g = Fin s" "scaleY g = Fin s" "gx g = Fin a" "gy g = Fin b"
    by (simp_all add: g_def newGroup_fields)
  have c: "jdiv (canvasX g (Fin p)) (Fin PREVIEW_SCALE_FACTOR) = Fin (p * s + a)"
    "jdiv (canvasY g (Fin p)) (Fin PREVIEW_SCALE_FACTOR) = Fin (p * s + b)" for p
    by (simp_all add: canvasX_def canvasY_def transformX_def transformY_def f jsub_Fin
        PREVIEW_SCALE_FACTOR_def)
  have "snd (printObject_v2 printMode \<lparr>svg_text = t, layer_of = [NGroup g]\<rparr>) =
             [PostPrint \<lparr>svg = t,
                offset_x = jdiv (canvasX g (Fin 0)) (Fin PREVIEW_SCALE_FACTOR),
                offset_y = jdiv (canvasY g (Fin 0)) (Fin PREVIEW_SCALE_FACTOR),
                scale_x = scaleX g, scale_y = scaleY g, mode = printMode\<rparr>]"
    unfolding c by (simp add: printObject_v2_def f)
  moreover have "\<forall>p. jadd (jmul (Fin p) (scaleX g)) (gx g) =
                  jdiv (canvasX g (Fin p)) (Fin PREVIEW_SCALE_FACTOR)"
    unfolding c by (simp add: f)
  moreover have "\<forall>p. jadd (jmul (Fin p) (scaleY g)) (gy g) =
                  jdiv (canvasY g (Fin p)) (Fin PREVIEW_SCALE_FACTOR)"
    unfolding c by (simp add: f)
  ultimately show ?thesis using kd by blast
qed

text \<open>
  C3. The offsets submitted for a rendered group are its position on the preview,
  brought from canvas pixels back to device units by the division by the magnification,
  and the scale factors are submitted unchanged. \<open>scripts.js\<close> does not do this. On the
  example of the specification it moves the offset of the group to the centre of the box,
  \<open>(5, 5)\<close>, and submits \<open>x + offsetX\<close>, \<open>y + offsetY\<close>: \<open>(184, 66.5)\<close>. The origin of the
  group, here the corner of the fitted box, is shown at the pixel \<open>(367.5, 15)\<close>, which is
  \<open>(122.5, 5)\<close> in device units: the values that the script with \<open>fitGroup\<close> submits for
  the same input.
\<close>

theorem scripts_js_offset_not_device_position:
  "snd (printObject ''once''
      \<lparr>svg_text = ''<svg/>'', layer_of = drawPreview [] [[(0, 0), (10, 0), (10, 10)]]\<rparr>) =
     [PostPrint \<lparr>svg = ''<svg/>'', offset_x = Fin 184, offset_y = Fin (133 / 2),
        scale_x = Fin (113 / 10), scale_y = Fin (113 / 10), mode = ''once''\<rparr>] \<and>
   jdiv (canvasX (drawPreview_group [[(0, 0), (10, 0), (10, 10)]]) (Fin 0))
        (Fin PREVIEW_SCALE_FACTOR) = Fin (245 / 2) \<and>
   jdiv (canvasY (drawPreview_group [[(0, 0), (10, 0), (10, 10)]]) (Fin 0))
        (Fin PREVIEW_SCALE_FACTOR) = Fin 5 \<and>
   rx (getClientRect (drawPreview_group [[(0, 0), (10, 0), (10, 10)]])) = Fin (245 / 2) \<and>
   ry (getClientRect (drawPreview_group [[(0, 0), (10, 0), (10, 10)]])) = Fin 5 \<and>
   Fin 184 \<noteq> Fin (245 / 2) \<and> Fin (133 / 2) \<noteq> Fin 5 \<and>
   snd (printObject_v2 ''once''
      \<lparr>svg_text = ''<svg/>'', layer_of = drawPreview_v2 [] [[(0, 0), (10, 0), (10, 10)]]\<rparr>) =
     [PostPrint \<lparr>svg = ''<svg/>'', offset_x = Fin (245 / 2), offset_y = Fin 5,
        scale_x = Fin (113 / 10), scale_y = Fin (113 / 10), mode = ''once''\<rparr>]"
proof -
  have box: "selfRect (lines (newGroup [[(0, 0), (10, 0), (10, 10)]])) =
      \<lparr>width = Fin 10, height = Fin 10, rx = Fin 0, ry = Fin 0\<rparr>"
    by (simp add: selfRect_def newGroup_def Let_def)
  have k1: "drawPreview_group [[(0, 0), (10, 0), (10, 10)]] =
      (newGroup [[(0, 0), (10, 0), (10, 10)]])\<lparr>offsetX := Fin 5, offsetY := Fin 5,
         scaleX := Fin (113 / 10), scaleY := Fin (113 / 10),
         gx := Fin 179, gy := Fin (123 / 2)\<rparr>"
    using drawPreview_group_eq [OF box, of "113 / 10"]
    by (simp add: IBB_WIDTH_def IBB_HEIGHT_def MARGIN_def)
  have k2: "fitGroup (newGroup [[(0, 0), (10, 0), (10, 10)]])
              \<lparr>width = Fin IBB_WIDTH, height = Fin IBB_HEIGHT\<rparr> (Fin MARGIN) =
      (newGroup [[(0, 0), (10, 0), (10, 10)]])\<lparr>scaleX := Fin (113 / 10), scaleY := Fin (113 / 10),
         gx := Fin (245 / 2), gy := Fin 5\<rparr>"
    using fitGroup_newGroup [OF box, of MARGIN IBB_WIDTH IBB_HEIGHT "113 / 10"]
    by (simp add: IBB_WIDTH_def IBB_HEIGHT_def MARGIN_def)
  have r: "getClientRect (drawPreview_group [[(0, 0), (10, 0), (10, 10)]]) =
      \<lparr>width = Fin 113, height = Fin 113, rx = Fin (245 / 2), ry = Fin 5\<rparr>"
    using fitted_rect [OF box, of MARGIN IBB_WIDTH IBB_HEIGHT "113 / 10"
        "drawPreview_group [[(0, 0), (10, 0), (10, 10)]]"]
    by (simp add: IBB_WIDTH_def IBB_HEIGHT_def MARGIN_def)
  show ?thesis
    unfolding drawPreview_def drawPreview_v2_def Let_def k2 r
    by (simp add: k1 printObject_def printObject_v2_def newGroup_fields canvasX_def canvasY_def
        transformX_def transformY_def jsub_Fin PREVIEW_SCALE_FACTOR_def)
qed

section \<open>C4: centring\<close>

text \<open>
  C4 (as amended). For every polyline set whose bounding box has a positive width or a
  positive height, the bounding box of the group after the fit of either Konva script
  has its centre at \<open>(IBB_WIDTH / 2, IBB_HEIGHT / 2)\<close>. In the fabric script the scaled
  group of such a set is centred horizontally on the canvas, and vertically when the
  height branch of the fit is taken.
\<close>

theorem fit_centres_content:
  assumes ne: "width (getClientRect (newGroup pls)) \<noteq> Fin 0 \<or>
               height (getClientRect (newGroup pls)) \<noteq> Fin 0"
    and g: "g = drawPreview_group pls \<or>
            g = fitGroup (newGroup pls) \<lparr>width = Fin IBB_WIDTH, height = Fin IBB_HEIGHT\<rparr> (Fin MARGIN)"
    and f: "f = last (drawPreview_fabric canvas pls)"
  shows "jadd (rx (getClientRect g)) (jdiv (width (getClientRect g)) (Fin 2)) = Fin (IBB_WIDTH / 2) \<and>
         jadd (ry (getClientRect g)) (jdiv (height (getClientRect g)) (Fin 2)) = Fin (IBB_HEIGHT / 2) \<and>
         jadd (fleft f) (jdiv (jmul (fwidth f) (fscaleX f)) (Fin 2)) =
           Fin (IBB_WIDTH * PREVIEW_SCALE_FACTOR / 2) \<and>
         (jgt (jdiv (fheight f) (fwidth f))
              (jdiv (Fin (IBB_HEIGHT * PREVIEW_SCALE_FACTOR)) (Fin (IBB_WIDTH * PREVIEW_SCALE_FACTOR))) \<longrightarrow>
            jadd (ftop f) (jdiv (jmul (fheight f) (fscaleY f)) (Fin 2)) =
              Fin (IBB_HEIGHT * PREVIEW_SCALE_FACTOR / 2))"
proof -
  obtain cw ch x0 y0 where
    box: "selfRect (lines (newGroup pls)) = \<lparr>width = Fin cw, height = Fin ch, rx = Fin x0, ry = Fin y0\<rparr>"
    and cr: "getClientRect (newGroup pls) = \<lparr>width = Fin cw, height = Fin ch, rx = Fin x0, ry = Fin y0\<rparr>"
    and nn: "0 \<le> cw" "0 \<le> ch"
    by (rule clientRect_newGroup_cases)
  from ne cr nn have pos: "0 < cw \<or> 0 < ch" by auto
  define s where "s = (if ch = 0 \<or> (IBB_WIDTH - MARGIN) / (IBB_HEIGHT - MARGIN) < cw / ch
                       then (IBB_WIDTH - MARGIN) / cw else (IBB_HEIGHT - MARGIN) / ch)"
  have tgt: "MARGIN < IBB_WIDTH" "MARGIN < IBB_HEIGHT"
    by (simp_all add: MARGIN_def IBB_WIDTH_def IBB_HEIGHT_def)
  have g': "g = fitGroup (newGroup pls) \<lparr>width = Fin IBB_WIDTH, height = Fin IBB_HEIGHT\<rparr> (Fin MARGIN) \<or>
            g = drawPreview_group pls \<and> IBB_WIDTH = IBB_WIDTH \<and> IBB_HEIGHT = IBB_HEIGHT \<and> MARGIN = MARGIN"
    using g by blast
  from fitted_rect [OF box nn pos tgt s_def g']
  have r: "getClientRect g =
           \<lparr>width = Fin (cw * s), height = Fin (ch * s),
            rx = Fin ((IBB_WIDTH - cw * s) / 2), ry = Fin ((IBB_HEIGHT - ch * s) / 2)\<rparr>"
    by simp
  have konva: "jadd (rx (getClientRect g)) (jdiv (width (getClientRect g)) (Fin 2)) = Fin (IBB_WIDTH / 2)"
    "jadd (ry (getClientRect g)) (jdiv (height (getClientRect g)) (Fin 2)) = Fin (IBB_HEIGHT / 2)"
    unfolding r by (simp_all add: field_simps)
  define t where "t = (if cw = 0 \<or> IBB_HEIGHT / IBB_WIDTH < ch / cw
                 then (IBB_HEIGHT - 10) / ch else (IBB_WIDTH - 10) / cw)"
  have fe: "f = \<lparr>objects = map (\<lambda>pl. preparePolyline pl PREVIEW_SCALE_FACTOR) pls,
             fleft = Fin ((IBB_WIDTH - cw * t) / 2 * 3), ftop = Fin 15,
             fwidth = Fin (cw * 3), fheight = Fin (ch * 3),
             fscaleX = Fin t, fscaleY = Fin t,
             originalLeft = Fin (x0 * 3), originalTop = Fin (y0 * 3)\<rparr>"
    unfolding f drawPreview_fabric_eq [OF box nn pos t_def] by simp
  have fab: "jadd (fleft f) (jdiv (jmul (fwidth f) (fscaleX f)) (Fin 2)) =
           Fin (IBB_WIDTH * PREVIEW_SCALE_FACTOR / 2)"
    unfolding fe by (simp add: PREVIEW_SCALE_FACTOR_def field_simps)
  have fabv: "jadd (ftop f) (jdiv (jmul (fheight f) (fscaleY f)) (Fin 2)) =
              Fin (IBB_HEIGHT * PREVIEW_SCALE_FACTOR / 2)"
    if c: "jgt (jdiv (fheight f) (fwidth f))
              (jdiv (Fin (IBB_HEIGHT * PREVIEW_SCALE_FACTOR)) (Fin (IBB_WIDTH * PREVIEW_SCALE_FACTOR)))"
  proof -
    have ratio: "jdiv (Fin (IBB_HEIGHT * PREVIEW_SCALE_FACTOR)) (Fin (IBB_WIDTH * PREVIEW_SCALE_FACTOR))
      = Fin (IBB_HEIGHT / IBB_WIDTH)"
      by (simp add: PREVIEW_SCALE_FACTOR_def IBB_WIDTH_def IBB_HEIGHT_def)
    from c have c': "jgt (jdiv (Fin (ch * 3)) (Fin (cw * 3))) (Fin (IBB_HEIGHT / IBB_WIDTH))"
      unfolding ratio fe by simp
    have chpos: "0 < ch"
    proof (rule ccontr)
      assume "\<not> 0 < ch"
      with nn have z: "ch = 0" by simp
      with pos have "cw \<noteq> 0" by auto
      with c' z show False by (simp add: IBB_WIDTH_def IBB_HEIGHT_def)
    qed
    have "cw = 0 \<or> IBB_HEIGHT / IBB_WIDTH < ch / cw"
    proof (cases "cw = 0")
      case False
      with c' show ?thesis by simp
    qed simp
    then have "t = (IBB_HEIGHT - 10) / ch" unfolding t_def by simp
    with chpos show ?thesis
      unfolding fe by (simp add: PREVIEW_SCALE_FACTOR_def field_simps)
  qed
  from konva fab fabv show ?thesis by blast
qed

text \<open>
  The example of the specification: centre \<open>(179, 61.5)\<close> in \<open>scripts.js\<close>, and the
  middle of the 1074 pixels of the canvas in the fabric script.
\<close>

theorem fit_centres_content_witness:
  "jadd (rx (getClientRect (drawPreview_group [[(0, 0), (10, 0), (10, 10)]])))
        (jdiv (width (getClientRect (drawPreview_group [[(0, 0), (10, 0), (10, 10)]]))) (Fin 2))
     = Fin 179 \<and>
   jadd (ry (getClientRect (drawPreview_group [[(0, 0), (10, 0), (10, 10)]])))
        (jdiv (height (getClientRect (drawPreview_group [[(0, 0), (10, 0), (10, 10)]]))) (Fin 2))
     = Fin (123 / 2) \<and>
   jadd (fleft (last (drawPreview_fabric [] [[(0, 0), (10, 0), (10, 10)]])))
        (jdiv (jmul (fwidth (last (drawPreview_fabric [] [[(0, 0), (10, 0), (10, 10)]])))
                    (fscaleX (last (drawPreview_fabric [] [[(0, 0), (10, 0), (10, 10)]])))) (Fin 2))
     = Fin 537"
proof -
  have ne: "width (getClientRect (newGroup [[(0, 0), (10, 0), (10, 10)]])) \<noteq> Fin 0 \<or>
            height (getClientRect (newGroup [[(0, 0), (10, 0), (10, 10)]])) \<noteq> Fin 0"
    by (simp add: getClientRect_def selfRect_def newGroup_def Let_def transformX_def
        transformY_def jsub_def)
  from fit_centres_content [OF ne disjI1 refl, OF refl, of "[]"]
  show ?thesis by (simp add: IBB_WIDTH_def IBB_HEIGHT_def PREVIEW_SCALE_FACTOR_def)
qed

text \<open>
  C4 as stated covers every non-empty polyline set. In the fabric script a polyline from
  \<open>(0,0)\<close> to \<open>(100,10)\<close> takes the width branch and is placed by its top edge: its middle
  is at 67.2 pixels, not at 184.5. In \<open>scripts.js\<close> a set of the single point \<open>(1,1)\<close>
  has a box of 0 by 0: the scale is \<open>113 / 0\<close>, and the box of the scaled group has no
  centre.
\<close>

theorem fit_not_centred_counterexample:
  "jadd (ftop (last (drawPreview_fabric [] [[(0, 0), (100, 10)]])))
        (jdiv (jmul (fheight (last (drawPreview_fabric [] [[(0, 0), (100, 10)]])))
                    (fscaleY (last (drawPreview_fabric [] [[(0, 0), (100, 10)]])))) (Fin 2))
     = Fin (336 / 5) \<and>
   Fin (336 / 5) \<noteq> Fin (IBB_HEIGHT * PREVIEW_SCALE_FACTOR / 2) \<and>
   scaleX (drawPreview_group [[(1, 1)]]) = PInf \<and>
   jadd (rx (getClientRect (drawPreview_group [[(1, 1)]])))
        (jdiv (width (getClientRect (drawPreview_group [[(1, 1)]]))) (Fin 2)) = NaN \<and>
   NaN \<noteq> Fin (IBB_WIDTH / 2)"
  by (simp add: drawPreview_fabric_def newFabricGroup_def preparePolyline_def scaleToWidth_def
      scaleToHeight_def setPositionByOrigin_center_top_def
      drawPreview_group_def getClientRect_def selfRect_def newGroup_def Let_def
      transformX_def transformY_def jsub_def signed_inf_def
      IBB_WIDTH_def IBB_HEIGHT_def MARGIN_def PREVIEW_SCALE_FACTOR_def)

section \<open>C5: the scripts compared\<close>

text \<open>
  C5 (as amended). The Konva script with \<open>fitGroup\<close> and the fabric script have this in
  common: the initial fit sets one scale for both axes; the request carries the scale
  factors of the group unchanged; and a sequence of drags adds the same amount to the
  offsets that either script submits, the sum of the pointer movements divided by
  \<open>PREVIEW_SCALE_FACTOR\<close>. So two placements that are submitted with equal values stay so
  under the same drags. The values submitted for the same polyline set are not equal in
  general.
\<close>

theorem drags_shift_offsets_alike:
  assumes n: "gname g = ''polylines''"
    and kp: "gx g = Fin a" "gy g = Fin b"
    and fp: "fleft f = Fin l" "ftop f = Fin u" "originalLeft f = Fin l0" "originalTop f = Fin u0"
    and d: "dx = sum_list (map fst ds) / PREVIEW_SCALE_FACTOR"
           "dy = sum_list (map snd ds) / PREVIEW_SCALE_FACTOR"
  shows "snd (printObject_v2 printMode \<lparr>svg_text = t, layer_of = fold dragLayer ds [NGroup g]\<rparr>) =
           [PostPrint \<lparr>svg = t, offset_x = Fin (a + dx), offset_y = Fin (b + dy),
              scale_x = scaleX g, scale_y = scaleY g, mode = printMode\<rparr>] \<and>
         snd (printObject_fabric printMode \<lparr>fsvg_text = t, canvas_of = fold dragCanvas ds [f]\<rparr>) =
           [PostPrint \<lparr>svg = t,
              offset_x = Fin ((l - l0) / PREVIEW_SCALE_FACTOR + dx),
              offset_y = Fin ((u - u0) / PREVIEW_SCALE_FACTOR + dy),
              scale_x = fscaleX f, scale_y = fscaleY f, mode = printMode\<rparr>] \<and>
         scaleX (fitGroup (newGroup pls) bounds margin) =
           scaleY (fitGroup (newGroup pls) bounds margin) \<and>
         fscaleX (last (drawPreview_fabric c pls)) = fscaleY (last (drawPreview_fabric c pls))"
proof -
  have k: "snd (printObject_v2 printMode \<lparr>svg_text = t, layer_of = fold dragLayer ds [NGroup g]\<rparr>) =
           [PostPrint \<lparr>svg = t, offset_x = Fin (a + dx), offset_y = Fin (b + dy),
              scale_x = scaleX g, scale_y = scaleY g, mode = printMode\<rparr>]"
    unfolding fold_dragLayer [OF kp] d
    by (simp add: printObject_v2_def n PREVIEW_SCALE_FACTOR_def)
  have fb: "snd (printObject_fabric printMode \<lparr>fsvg_text = t, canvas_of = fold dragCanvas ds [f]\<rparr>) =
           [PostPrint \<lparr>svg = t,
              offset_x = Fin ((l - l0) / PREVIEW_SCALE_FACTOR + dx),
              offset_y = Fin ((u - u0) / PREVIEW_SCALE_FACTOR + dy),
              scale_x = fscaleX f, scale_y = fscaleY f, mode = printMode\<rparr>]"
    unfolding fold_dragCanvas [OF fp(1,2)] d
    by (simp add: printObject_fabric_def fp jsub_Fin PREVIEW_SCALE_FACTOR_def
        add_divide_distrib diff_divide_distrib)
  from k fb fitGroup_uniform drawPreview_fabric_uniform show ?thesis by blast
qed

text \<open>
  The rendered group of the example of the specification, and a fabric group at
  \<open>(300, 15)\<close>, both dragged by 30 pixels to the right and 6 up: 10 is added to either
  horizontal offset, and 2 taken from either vertical one.
\<close>

theorem drags_shift_offsets_alike_witness:
  "snd (printObject_v2 ''once''
      \<lparr>svg_text = ''<svg/>'',
       layer_of = fold dragLayer [(30, - 6)] (drawPreview_v2 [] [[(0, 0), (10, 0), (10, 10)]])\<rparr>) =
     [PostPrint \<lparr>svg = ''<svg/>'', offset_x = Fin (245 / 2 + 10), offset_y = Fin (5 + - 2),
        scale_x = Fin (113 / 10), scale_y = Fin (113 / 10), mode = ''once''\<rparr>] \<and>
   snd (printObject_fabric ''once''
      \<lparr>fsvg_text = ''<svg/>'',
       canvas_of = fold dragCanvas [(30, - 6)]
         [\<lparr>objects = [], fleft = Fin 300, ftop = Fin 15, fwidth = Fin 90, fheight = Fin 60,
           fscaleX = Fin 2, fscaleY = Fin 2, originalLeft = Fin 0, originalTop = Fin 0\<rparr>]\<rparr>) =
     [PostPrint \<lparr>svg = ''<svg/>'', offset_x = Fin (100 + 10), offset_y = Fin (5 + - 2),
        scale_x = Fin 2, scale_y = Fin 2, mode = ''once''\<rparr>]"
proof -
  have box: "selfRect (lines (newGroup [[(0, 0), (10, 0), (10, 10)]])) =
      \<lparr>width = Fin 10, height = Fin 10, rx = Fin 0, ry = Fin 0\<rparr>"
    by (simp add: selfRect_def newGroup_def Let_def)
  have k2: "fitGroup (newGroup [[(0, 0), (10, 0), (10, 10)]])
              \<lparr>width = Fin IBB_WIDTH, height = Fin IBB_HEIGHT\<rparr> (Fin MARGIN) =
      (newGroup [[(0, 0), (10, 0), (10, 10)]])\<lparr>scaleX := Fin (113 / 10), scaleY := Fin (113 / 10),
         gx := Fin (245 / 2), gy := Fin 5\<rparr>"
    using fitGroup_newGroup [OF box, of MARGIN IBB_WIDTH IBB_HEIGHT "113 / 10"]
    by (simp add: IBB_WIDTH_def IBB_HEIGHT_def MARGIN_def)
  let ?g = "(newGroup [[(0, 0), (10, 0), (10, 10)]])\<lparr>scaleX := Fin (113 / 10),
         scaleY := Fin (113 / 10), gx := Fin (245 / 2), gy := Fin 5\<rparr>"
  let ?f = "\<lparr>objects = [], fleft = Fin 300, ftop = Fin 15, fwidth = Fin 90, fheight = Fin 60,
           fscaleX = Fin 2, fscaleY = Fin 2, originalLeft = Fin 0, originalTop = Fin 0\<rparr>"
  have h: "gname ?g = ''polylines''" "gx ?g = Fin (245 / 2)" "gy ?g = Fin 5"
    "fleft ?f = Fin 300" "ftop ?f = Fin 15" "originalLeft ?f = Fin 0" "originalTop ?f = Fin 0"
    "(10::real) = sum_list (map fst [(30, - 6)]) / PREVIEW_SCALE_FACTOR"
    "(- 2::real) = sum_list (map snd [(30, - 6)]) / PREVIEW_SCALE_FACTOR"
    by (simp_all add: newGroup_fields PREVIEW_SCALE_FACTOR_def)
  from drags_shift_offsets_alike [OF h, of "''once''" "''<svg/>''"]
  show ?thesis
    unfolding drawPreview_v2_def k2
    by (simp add: PREVIEW_SCALE_FACTOR_def)
qed

text \<open>
  C5 as stated has the scripts submit equal values for the same polyline set. For the
  example of the specification \<open>scripts.js\<close> submits the offsets \<open>(184, 66.5)\<close>, which is
  not the request of the fabric script; for a polyline from \<open>(0,0)\<close> to \<open>(100,10)\<close> the
  Konva script with \<open>fitGroup\<close> centres the drawing and submits the vertical offset
  \<open>44.1\<close>, which is not the request of the fabric script either, the drawing being placed
  by its top edge there.
\<close>

theorem implementations_differ_counterexample:
  "snd (printObject ''once''
      \<lparr>svg_text = ''<svg/>'', layer_of = drawPreview [] [[(0, 0), (10, 0), (10, 10)]]\<rparr>) =
     [PostPrint \<lparr>svg = ''<svg/>'', offset_x = Fin 184, offset_y = Fin (133 / 2),
        scale_x = Fin (113 / 10), scale_y = Fin (113 / 10), mode = ''once''\<rparr>] \<and>
   snd (printObject ''once''
      \<lparr>svg_text = ''<svg/>'', layer_of = drawPreview [] [[(0, 0), (10, 0), (10, 10)]]\<rparr>) \<noteq>
   snd (printObject_fabric ''once''
      \<lparr>fsvg_text = ''<svg/>'', canvas_of = drawPreview_fabric [] [[(0, 0), (10, 0), (10, 10)]]\<rparr>) \<and>
   snd (printObject_v2 ''once''
      \<lparr>svg_text = ''<svg/>'', layer_of = drawPreview_v2 [] [[(0, 0), (100, 10)]]\<rparr>) =
     [PostPrint \<lparr>svg = ''<svg/>'', offset_x = Fin 5, offset_y = Fin (441 / 10),
        scale_x = Fin (87 / 25), scale_y = Fin (87 / 25), mode = ''once''\<rparr>] \<and>
   snd (printObject_v2 ''once''
      \<lparr>svg_text = ''<svg/>'', layer_of = drawPreview_v2 [] [[(0, 0), (100, 10)]]\<rparr>) \<noteq>
   snd (printObject_fabric ''once''
      \<lparr>fsvg_text = ''<svg/>'', canvas_of = drawPreview_fabric [] [[(0, 0), (100, 10)]]\<rparr>)"
  by (simp add: printObject_def printObject_v2_def printObject_fabric_def
      drawPreview_def drawPreview_v2_def drawPreview_fabric_def
      drawPreview_group_def fitGroup_def newFabricGroup_def preparePolyline_def
      scaleToWidth_def scaleToHeight_def setPositionByOrigin_center_top_def
      getClientRect_def selfRect_def newGroup_def Let_def
      transformX_def transformY_def jsub_def
      IBB_WIDTH_def IBB_HEIGHT_def MARGIN_def PREVIEW_SCALE_FACTOR_def)

section \<open>C6: submitting with nothing loaded\<close>

text \<open>
  C6. When the layer holds no group named \<open>polylines\<close> (in the fabric script: when the
  canvas holds no object), \<open>printObject\<close> shows the notice that no object is loaded and
  does nothing else: it sends no request and leaves the page as it was.
\<close>

theorem submit_without_content:
  "([g. NGroup g \<leftarrow> layer_of p, gname g = ''polylines''] = [] \<longrightarrow>
      printObject printMode p =
        (p, [Alert ''No object loaded. Please choose an SVG file first.'']) \<and>
      printObject_v2 printMode p =
        (p, [Alert ''No object loaded. Please choose an SVG file first.''])) \<and>
   (canvas_of q = [] \<longrightarrow>
      printObject_fabric printMode q =
        (q, [Alert ''No object loaded. Please choose an SVG file first.'']))"
  by (simp add: printObject_def printObject_v2_def printObject_fabric_def)

text \<open>
  A layer that holds only a transformer, and an empty canvas.
\<close>

theorem submit_without_content_witness:
  "printObject ''once''
     \<lparr>svg_text = ''<svg/>'', layer_of = [NTransformer \<lparr>rotateEnabled = False, nodes = []\<rparr>]\<rparr> =
     (\<lparr>svg_text = ''<svg/>'', layer_of = [NTransformer \<lparr>rotateEnabled = False, nodes = []\<rparr>]\<rparr>,
      [Alert ''No object loaded. Please choose an SVG file first.'']) \<and>
   printObject_fabric ''once'' \<lparr>fsvg_text = ''<svg/>'', canvas_of = []\<rparr> =
     (\<lparr>fsvg_text = ''<svg/>'', canvas_of = []\<rparr>,
      [Alert ''No object loaded. Please choose an SVG file first.''])"
  using submit_without_content [of
      "\<lparr>svg_text = ''<svg/>'', layer_of = [NTransformer \<lparr>rotateEnabled = False, nodes = []\<rparr>]\<rparr>"
      "''once''" "\<lparr>fsvg_text = ''<svg/>'', canvas_of = []\<rparr>"]
  by simp

section \<open>C7: failures leave the state alone\<close>

text \<open>
  C7. A decomposition response with a status outside 200 to 299 leaves the page, and so
  the preview on it, as it was, and produces one alert; an answer to a print request other
  than 204 leaves everything as it was and produces one alert.
\<close>

theorem failure_leaves_state:
  "(\<not> ok r \<longrightarrow>
      fst (loadSvg_response draw p r) = p \<and>
      (\<exists>msg. snd (loadSvg_response draw p r) = [Alert msg])) \<and>
   (st \<noteq> 204 \<longrightarrow>
      fst (printObject_response printMode q st) = q \<and>
      (\<exists>msg. snd (printObject_response printMode q st) = [Alert msg]))"
  by (simp add: loadSvg_response_def printObject_response_def)

text \<open>
  A preview is on display; the next decomposition fails with status 500, and a print
  request fails with status 400.
\<close>

theorem failure_leaves_state_witness:
  "loadSvg_response drawPreview
      \<lparr>svg_text = ''<svg/>'', layer_of = drawPreview [] [[(0, 0), (10, 0), (10, 10)]]\<rparr>
      \<lparr>status = 500, payload = None, body = NotJson\<rparr> =
     (\<lparr>svg_text = ''<svg/>'', layer_of = drawPreview [] [[(0, 0), (10, 0), (10, 10)]]\<rparr>,
      [Alert ''Error (HTTP 500)'']) \<and>
   printObject_response ''once'' (drawPreview [] [[(0, 0), (10, 0), (10, 10)]]) 400 =
     (drawPreview [] [[(0, 0), (10, 0), (10, 10)]],
      [Alert ''Error. Did you upload a valid SVG file?''])"
  using failure_leaves_state [of "\<lparr>status = 500, payload = None, body = NotJson\<rparr>" drawPreview
      "\<lparr>svg_text = ''<svg/>'', layer_of = drawPreview [] [[(0, 0), (10, 0), (10, 10)]]\<rparr>"
      400 "''once''" "drawPreview [] [[(0, 0), (10, 0), (10, 10)]]"]
  by (simp add: loadSvg_response_def printObject_response_def ok_def digit_def)

section \<open>C8: the empty polyline set\<close>

text \<open>
  C8 (as amended). Neither \<open>drawPreview\<close> nor \<open>loadSvg\<close> tests whether the polyline set
  is empty. For every polyline set, empty or not, \<open>drawPreview\<close> runs the fit and adds
  one draggable group named \<open>polylines\<close> to the layer, in both Konva scripts; for the
  empty set the box is 0 by 0 and the scale becomes \<open>113 / 0\<close>, infinity. The guard of
  \<open>printObject\<close> only looks for such a group, so after any successful response
  \<open>printObject\<close> sends a request.
\<close>

theorem drawPreview_without_guard:
  "[g. NGroup g \<leftarrow> drawPreview layer pls, gname g = ''polylines''] =
     [g. NGroup g \<leftarrow> layer, gname g = ''polylines''] @ [drawPreview_group pls] \<and>
   [g. NGroup g \<leftarrow> drawPreview_v2 layer pls, gname g = ''polylines''] =
     [g. NGroup g \<leftarrow> layer, gname g = ''polylines''] @
     [fitGroup (newGroup pls) \<lparr>width = Fin IBB_WIDTH, height = Fin IBB_HEIGHT\<rparr> (Fin MARGIN)] \<and>
   draggable (drawPreview_group pls) \<and>
   draggable (fitGroup (newGroup pls) \<lparr>width = Fin IBB_WIDTH, height = Fin IBB_HEIGHT\<rparr> (Fin MARGIN)) \<and>
   scaleX (drawPreview_group []) = PInf \<and>
   scaleX (fitGroup (newGroup []) \<lparr>width = Fin IBB_WIDTH, height = Fin IBB_HEIGHT\<rparr> (Fin MARGIN)) = PInf \<and>
   (ok r \<and> payload r = Some pls \<longrightarrow>
      snd (printObject printMode (fst (loadSvg_response drawPreview p r))) =
        [PostPrint \<lparr>svg = svg_text p,
           offset_x = jadd (gx (drawPreview_group pls)) (offsetX (drawPreview_group pls)),
           offset_y = jadd (gy (drawPreview_group pls)) (offsetY (drawPreview_group pls)),
           scale_x = scaleX (drawPreview_group pls), scale_y = scaleY (drawPreview_group pls),
           mode = printMode\<rparr>] \<and>
      snd (printObject_v2 printMode (fst (loadSvg_response drawPreview_v2 p r))) =
        [PostPrint \<lparr>svg = svg_text p,
           offset_x = gx (fitGroup (newGroup pls)
                            \<lparr>width = Fin IBB_WIDTH, height = Fin IBB_HEIGHT\<rparr> (Fin MARGIN)),
           offset_y = gy (fitGroup (newGroup pls)
                            \<lparr>width = Fin IBB_WIDTH, height = Fin IBB_HEIGHT\<rparr> (Fin MARGIN)),
           scale_x = scaleX (fitGroup (newGroup pls)
                            \<lparr>width = Fin IBB_WIDTH, height = Fin IBB_HEIGHT\<rparr> (Fin MARGIN)),
           scale_y = scaleY (fitGroup (newGroup pls)
                            \<lparr>width = Fin IBB_WIDTH, height = Fin IBB_HEIGHT\<rparr> (Fin MARGIN)),
           mode = printMode\<rparr>])"
  by (simp add: drawPreview_def drawPreview_v2_def Let_def drawPreview_group_named
      fitGroup_named newGroup_fields empty_scale loadSvg_response_def printObject_def
      printObject_v2_def)

text \<open>
  A successful response with the empty polyline set, then a click on the print button.
\<close>

theorem drawPreview_without_guard_witness:
  "snd (printObject ''once'' (fst (loadSvg_response drawPreview
      \<lparr>svg_text = ''<svg/>'', layer_of = []\<rparr> \<lparr>status = 200, payload = Some [], body = NotJson\<rparr>))) =
     [PostPrint \<lparr>svg = ''<svg/>'', offset_x = Fin 179, offset_y = Fin (123 / 2),
        scale_x = PInf, scale_y = PInf, mode = ''once''\<rparr>]"
  using drawPreview_without_guard [of "[]" "[]" "\<lparr>status = 200, payload = Some [], body = NotJson\<rparr>"
      "''once''" "\<lparr>svg_text = ''<svg/>'', layer_of = []\<rparr>"]
  by (simp add: ok_def drawPreview_group_def getClientRect_def selfRect_def
      newGroup_def Let_def transformX_def transformY_def jsub_def signed_inf_def
      IBB_WIDTH_def IBB_HEIGHT_def MARGIN_def)

text \<open>
  C8 as stated has the empty set render nothing and leave no group. After a successful
  response with the empty set, the layer of either Konva script holds a draggable group
  named \<open>polylines\<close>, with an infinite scale.
\<close>

theorem empty_set_not_guarded_counterexample:
  "[(gname g, draggable g, scaleX g, scaleY g).
      NGroup g \<leftarrow> layer_of (fst (loadSvg_response drawPreview
        \<lparr>svg_text = ''<svg/>'', layer_of = []\<rparr>
        \<lparr>status = 200, payload = Some [], body = NotJson\<rparr>))] =
     [(''polylines'', True, PInf, PInf)] \<and>
   [(gname g, draggable g, scaleX g, scaleY g).
      NGroup g \<leftarrow> layer_of (fst (loadSvg_response drawPreview_v2
        \<lparr>svg_text = ''<svg/>'', layer_of = []\<rparr>
        \<lparr>status = 200, payload = Some [], body = NotJson\<rparr>))] =
     [(''polylines'', True, PInf, PInf)]"
  by (simp add: loadSvg_response_def ok_def drawPreview_def drawPreview_v2_def Let_def
      drawPreview_group_named fitGroup_named newGroup_fields empty_scale)

section \<open>C9: error messages\<close>

text \<open>
  C9 (as amended). For every decomposition response with a status outside 200 to 299,
  \<open>loadSvg\<close> shows the invalid-file message when the status is 400 and otherwise a
  message with the status in decimal digits; it never reads the body of the response, so
  the message does not depend on it. A detail is read only by \<open>loadSvgList\<close>, for the
  list of files: the field \<open>details\<close> of the body is appended to its message, and nothing
  is appended when the body does not parse or is \<open>null\<close>.
\<close>

theorem error_classification:
  "(\<not> ok r \<longrightarrow>
      loadSvg_response draw p r =
        (p, [Alert (if status r = 400 then ''Error. Did you upload a valid SVG file?''
                    else ''Error (HTTP '' @ string_of_nat (status r) @ '')'')])) \<and>
   loadSvg_response draw p (r\<lparr>body := b\<rparr>) = loadSvg_response draw p r \<and>
   loadSvgList_error (r\<lparr>body := JsonObject (Some d)\<rparr>) =
     ''Error fetching SVG files (HTTP '' @ string_of_nat (status r) @ '')'' @
     [CHR 0x0A] @ ''Details: '' @ d \<and>
   loadSvgList_error (r\<lparr>body := NotJson\<rparr>) =
     ''Error fetching SVG files (HTTP '' @ string_of_nat (status r) @ '')'' \<and>
   loadSvgList_error (r\<lparr>body := JsonNull\<rparr>) =
     ''Error fetching SVG files (HTTP '' @ string_of_nat (status r) @ '')''"
  by (simp add: loadSvg_response_def loadSvgList_error_def ok_def)

text \<open>
  Status 503 and status 400 for a decomposition; status 500 with a detail for the list of
  files.
\<close>

theorem error_classification_witness:
  "loadSvg_response drawPreview \<lparr>svg_text = ''<svg/>'', layer_of = []\<rparr>
      \<lparr>status = 503, payload = None, body = NotJson\<rparr> =
     (\<lparr>svg_text = ''<svg/>'', layer_of = []\<rparr>, [Alert ''Error (HTTP 503)'']) \<and>
   loadSvg_response drawPreview \<lparr>svg_text = ''<svg/>'', layer_of = []\<rparr>
      \<lparr>status = 400, payload = None, body = NotJson\<rparr> =
     (\<lparr>svg_text = ''<svg/>'', layer_of = []\<rparr>,
      [Alert ''Error. Did you upload a valid SVG file?'']) \<and>
   loadSvgList_error \<lparr>status = 500, payload = None, body = JsonObject (Some ''disk full'')\<rparr> =
     ''Error fetching SVG files (HTTP 500)'' @ [CHR 0x0A] @ ''Details: disk full''"
  using
    error_classification [of "\<lparr>status = 503, payload = None, body = NotJson\<rparr>" drawPreview
      "\<lparr>svg_text = ''<svg/>'', layer_of = []\<rparr>" NotJson "''disk full''"]
    error_classification [of "\<lparr>status = 400, payload = None, body = NotJson\<rparr>" drawPreview
      "\<lparr>svg_text = ''<svg/>'', layer_of = []\<rparr>" NotJson "''disk full''"]
    error_classification [of "\<lparr>status = 500, payload = None, body = NotJson\<rparr>" drawPreview
      "\<lparr>svg_text = ''<svg/>'', layer_of = []\<rparr>" NotJson "''disk full''"]
  by (simp add: ok_def digit_def)

text \<open>
  C9 as stated has the decomposition handler extract the detail of the error body. With
  a detail in the body, the alerts of \<open>loadSvg\<close> are the bare messages.
\<close>

theorem details_not_extracted_counterexample:
  "snd (loadSvg_response drawPreview \<lparr>svg_text = ''<svg/>'', layer_of = []\<rparr>
      \<lparr>status = 500, payload = None, body = JsonObject (Some ''disk full'')\<rparr>) =
     [Alert ''Error (HTTP 500)''] \<and>
   snd (loadSvg_response drawPreview \<lparr>svg_text = ''<svg/>'', layer_of = []\<rparr>
      \<lparr>status = 400, payload = None, body = JsonObject (Some ''no svg element'')\<rparr>) =
     [Alert ''Error. Did you upload a valid SVG file?'']"
  by (simp add: loadSvg_response_def ok_def digit_def)

section \<open>C10: selecting by click\<close>

text \<open>
  C10. In the click handler of the stage, a click on the stage itself clears the
  selection; a click on a shape whose parent is not selected selects that parent alone; a
  click on a shape whose parent is selected clears the selection, so that a second click
  on the same group deselects it.
\<close>

theorem click_tap_toggle:
  "click_tap Stage sel = [] \<and>
   (parent \<notin> set sel \<longrightarrow> click_tap (Shape parent) sel = [parent]) \<and>
   (parent \<in> set sel \<longrightarrow> click_tap (Shape parent) sel = []) \<and>
   (parent \<notin> set sel \<longrightarrow> click_tap (Shape parent) (click_tap (Shape parent) sel) = [])"
  by (simp add: click_tap_def)

text \<open>
  Group 1, selected by a first click and deselected by a second.
\<close>

theorem click_tap_toggle_witness:
  "click_tap Stage [1 :: nat] = [] \<and> click_tap (Shape (1 :: nat)) [] = [1] \<and>
   click_tap (Shape (1 :: nat)) [1] = [] \<and>
   click_tap (Shape (1 :: nat)) (click_tap (Shape 1) []) = []"
  using click_tap_toggle [of "[1 :: nat]" 1] click_tap_toggle [of "[] :: nat list" 1]
  by simp

end
